theory Spec2Isabelle
  imports Main "HOL-Library.AList" "HOL-Library.Multiset" "HOL-Library.Product_Lexorder"
begin

section \<open>The NWHL play-by-play scraper (\<^verbatim>\<open>nwhl_pbp_scraper.py\<close>)\<close>

text \<open>
  The script decodes one JSON record and reshapes it into three tables. The model
  follows the source function by function: \<open>convert_pbp_dict\<close>, \<open>pull_player_names\<close>
  and \<open>main\<close>. The HTTP request of \<open>get_pbp_dict\<close> and the three \<open>to_csv\<close> calls are
  input and output: the decoded record is the argument of the model, and the three
  tables handed to \<open>to_csv\<close> are its result.
\<close>

subsection \<open>Decoded JSON and Python exceptions\<close>

text \<open>
  What \<open>req.json()\<close> returns. \<open>JNull\<close> is Python's \<open>None\<close> (and, inside a table,
  pandas' missing marker NaN). An object is the list of its entries, each key once, as
  a decoded dictionary has them. Numbers are Python's unbounded integers; a JSON number
  with a fraction would be a float and is not part of the model. Strings are ASCII text.
\<close>

datatype json =
    JNull
  | JBool bool
  | JInt int
  | JStr string
  | JList "json list"
  | JObj "(string \<times> json) list"

text \<open>
  Every exception the script can raise is a value. \<open>NotModelled\<close> is not a Python
  exception: it marks an input whose treatment by pandas depends on column dtypes that
  the model does not follow (each use says which).
\<close>

datatype error = KeyError | IndexError | TypeError | AttributeError | ValueError | NotModelled

definition and_then :: "error + 'a \<Rightarrow> ('a \<Rightarrow> error + 'b) \<Rightarrow> error + 'b" where
  "and_then m f = (case m of Inl e \<Rightarrow> Inl e | Inr v \<Rightarrow> f v)"

subsection \<open>The Python operations the loop body uses\<close>

text \<open>Truthiness, as \<open>if x and ...\<close> tests it.\<close>

fun truthy :: "json \<Rightarrow> bool" where
  "truthy JNull = False"
| "truthy (JBool b) = b"
| "truthy (JInt n) = (n \<noteq> 0)"
| "truthy (JStr s) = (s \<noteq> [])"
| "truthy (JList xs) = (xs \<noteq> [])"
| "truthy (JObj kvs) = (kvs \<noteq> [])"

text \<open>\<open>x['k']\<close>: only a dictionary can be subscripted by a string.\<close>

fun getitem :: "json \<Rightarrow> string \<Rightarrow> error + json" where
  "getitem (JObj kvs) k = (case map_of kvs k of None \<Rightarrow> Inl KeyError | Some v \<Rightarrow> Inr v)"
| "getitem _ k = Inl TypeError"

text \<open>
  \<open>x[0]\<close>: the first element of a list, the first character of a string (a string of
  length one); a decoded dictionary has string keys only, so \<open>0\<close> is never one of them.
\<close>

fun getitem0 :: "json \<Rightarrow> error + json" where
  "getitem0 (JList []) = Inl IndexError"
| "getitem0 (JList (x # xs)) = Inr x"
| "getitem0 (JStr []) = Inl IndexError"
| "getitem0 (JStr (c # cs)) = Inr (JStr [c])"
| "getitem0 (JObj kvs) = Inl KeyError"
| "getitem0 _ = Inl TypeError"

text \<open>\<open>x.get(k, d)\<close>: only a dictionary has the method.\<close>

fun dict_get :: "json \<Rightarrow> string \<Rightarrow> json \<Rightarrow> error + json" where
  "dict_get (JObj kvs) k d = Inr (case map_of kvs k of None \<Rightarrow> d | Some v \<Rightarrow> v)"
| "dict_get _ k d = Inl AttributeError"

text \<open>\<open>x[:10]\<close>. Slicing a dictionary raises (TypeError before Python 3.12).\<close>

fun slice10 :: "json \<Rightarrow> error + json" where
  "slice10 (JStr s) = Inr (JStr (take 10 s))"
| "slice10 (JList xs) = Inr (JList (take 10 xs))"
| "slice10 _ = Inl TypeError"

text \<open>Whitespace as \<open>str.strip\<close> and \<open>int\<close> see it, within ASCII.\<close>

definition isspace :: "char \<Rightarrow> bool" where
  "isspace c = (let n = (of_char c :: nat) in (9 \<le> n \<and> n \<le> 13) \<or> (28 \<le> n \<and> n \<le> 32))"

definition strip :: "string \<Rightarrow> string" where
  "strip s = rev (dropWhile isspace (rev (dropWhile isspace s)))"

definition lower_char :: "char \<Rightarrow> char" where
  "lower_char c = (let n = (of_char c :: nat) in if 65 \<le> n \<and> n \<le> 90 then char_of (n + 32) else c)"

definition lower :: "string \<Rightarrow> string" where
  "lower s = map lower_char s"

text \<open>\<open>x.strip()\<close>: a method of strings only.\<close>

fun str_strip :: "json \<Rightarrow> error + string" where
  "str_strip (JStr s) = Inr (strip s)"
| "str_strip _ = Inl AttributeError"

text \<open>\<open>s.split(':')\<close>: every separator splits, so the result has at least one part.\<close>

fun split_on :: "char \<Rightarrow> string \<Rightarrow> string list" where
  "split_on d [] = [[]]"
| "split_on d (c # cs) =
     (if c = d then [] # split_on d cs
      else (case split_on d cs of [] \<Rightarrow> [[c]] | w # ws \<Rightarrow> (c # w) # ws))"

text \<open>\<open>xs[i]\<close> on the list \<open>split\<close> returned.\<close>

definition part :: "string list \<Rightarrow> nat \<Rightarrow> error + string" where
  "part xs i = (if i < length xs then Inr (xs ! i) else Inl IndexError)"

text \<open>
  \<open>int(s)\<close> in base ten: surrounding whitespace is dropped, one sign is allowed, and
  single underscores may stand between digits.
\<close>

definition isdigit :: "char \<Rightarrow> bool" where
  "isdigit c = (let n = (of_char c :: nat) in 48 \<le> n \<and> n \<le> 57)"

definition digit_val :: "char \<Rightarrow> int" where
  "digit_val c = int (of_char c) - 48"

fun int_literal :: "string \<Rightarrow> bool" where
  "int_literal [] = False"
| "int_literal [c] = isdigit c"
| "int_literal (c # d # cs) =
     (isdigit c \<and> (if d = CHR ''_'' then int_literal cs else int_literal (d # cs)))"

definition digits_value :: "string \<Rightarrow> int" where
  "digits_value ds = foldl (\<lambda>n c. 10 * n + digit_val c) 0 ds"

definition py_int :: "string \<Rightarrow> error + int" where
  "py_int s =
     (let t = strip s;
          (neg, u) = (case t of
                        c # r \<Rightarrow> if c = CHR ''-'' then (True, r)
                                 else if c = CHR ''+'' then (False, r) else (False, t)
                      | [] \<Rightarrow> (False, t))
      in if int_literal u
         then Inr ((if neg then - 1 else 1) * digits_value (filter (\<lambda>c. c \<noteq> CHR ''_'') u))
         else Inl ValueError)"

text \<open>\<open>'Goal' in x\<close>: a substring of a string, an element of a list, a key of a dictionary.\<close>

fun contains :: "string \<Rightarrow> string \<Rightarrow> bool" where
  "contains sub [] = (sub = [])"
| "contains sub (c # cs) = (take (length sub) (c # cs) = sub \<or> contains sub cs)"

fun py_in :: "string \<Rightarrow> json \<Rightarrow> error + bool" where
  "py_in s (JStr t) = Inr (contains s t)"
| "py_in s (JList xs) = Inr (JStr s \<in> set xs)"
| "py_in s (JObj kvs) = Inr (s \<in> fst ` set kvs)"
| "py_in s _ = Inl TypeError"

text \<open>
  \<open>str(x)\<close>, as \<open>'{} {}'.format\<close> applies it to its arguments. The text of a list or a
  dictionary (Python's \<open>repr\<close> of every element, with its quoting rules) is not modelled.
\<close>

fun nat_digits :: "nat \<Rightarrow> string" where
  "nat_digits n = (if n < 10 then [char_of (48 + n)] else nat_digits (n div 10) @ [char_of (48 + n mod 10)])"

fun py_str :: "json \<Rightarrow> error + string" where
  "py_str (JStr s) = Inr s"
| "py_str JNull = Inr ''None''"
| "py_str (JBool b) = Inr (if b then ''True'' else ''False'')"
| "py_str (JInt n) = Inr (if n < 0 then CHR ''-'' # nat_digits (nat (- n)) else nat_digits (nat n))"
| "py_str _ = Inl NotModelled"

subsection \<open>The body of the loop over \<open>plays\<close>\<close>

text \<open>
  The test of lines 71 and 88:
  \<^verbatim>\<open>play['special_tags'] and play['special_tags'][0] == "ends_time_interval"\<close>.
\<close>

definition ends_time_interval :: "json \<Rightarrow> error + bool" where
  "ends_time_interval play =
     and_then (getitem play ''special_tags'') (\<lambda>tags.
       if truthy tags
       then and_then (getitem0 tags) (\<lambda>tag. Inr (tag = JStr ''ends_time_interval''))
       else Inr False)"

text \<open>
  The body of the \<open>try\<close> of lines 77 to 80: split the clock at the colons, read the
  first two parts as integers.
\<close>

definition clock_seconds :: "json \<Rightarrow> error + int" where
  "clock_seconds clock =
     (case clock of
        JStr s \<Rightarrow>
          (let time = split_on CHR '':'' s in
           and_then (and_then (part time 0) py_int) (\<lambda>m.
           and_then (and_then (part time 1) py_int) (\<lambda>seconds.
           Inr (m * 60 + seconds))))
      | _ \<Rightarrow> Inl AttributeError)"

text \<open>
  Lines 71 to 82. The \<open>except\<close> clause names \<open>AttributeError\<close> only: every other
  exception of the \<open>try\<close> body leaves the function.
\<close>

definition seconds_elapsed :: "json \<Rightarrow> error + json" where
  "seconds_elapsed play =
     and_then (ends_time_interval play) (\<lambda>period_end.
       if period_end then Inr (JInt 1200)
       else and_then (getitem play ''play_type'') (\<lambda>play_type.
         if play_type = JStr ''Shootout'' then Inr (JInt 0)
         else (case and_then (getitem play ''clock_time_string'') clock_seconds of
                 Inr n \<Rightarrow> Inr (JInt n)
               | Inl AttributeError \<Rightarrow> Inr (JInt 0)
               | Inl e \<Rightarrow> Inl e)))"

text \<open>Lines 88 to 91.\<close>

definition event_type :: "json \<Rightarrow> error + json" where
  "event_type play =
     and_then (ends_time_interval play) (\<lambda>period_end.
       if period_end then Inr (JStr ''Period End'') else getitem play ''play_type'')"

text \<open>\<open>play['play_summary'].get(k, d)\<close> and \<open>play['play_actions'][0].get(k)\<close>.\<close>

definition summary_get :: "json \<Rightarrow> string \<Rightarrow> json \<Rightarrow> error + json" where
  "summary_get play k d = and_then (getitem play ''play_summary'') (\<lambda>summary. dict_get summary k d)"

definition action_get :: "json \<Rightarrow> string \<Rightarrow> error + json" where
  "action_get play k =
     and_then (getitem play ''play_actions'') (\<lambda>actions.
     and_then (getitem0 actions) (\<lambda>action. dict_get action k JNull))"

text \<open>Lines 94 to 99.\<close>

definition event_description :: "json \<Rightarrow> error + json" where
  "event_description play =
     and_then (and_then (getitem play ''play_by_play_string'') str_strip) (\<lambda>s.
       if lower s = ''penalty''
       then and_then (getitem play ''play_summary'') (\<lambda>summary.
            and_then (and_then (getitem summary ''details'') py_str) (\<lambda>details.
            Inr (JStr (s @ '' '' @ details))))
       else Inr (JStr s))"

text \<open>Lines 106 to 113: the three participants.\<close>

definition event_players :: "json \<Rightarrow> error + json \<times> json \<times> json" where
  "event_players play =
     and_then (and_then (getitem play ''play_by_play_string'') (py_in ''Goal'')) (\<lambda>goal.
       if goal
       then and_then (summary_get play ''scorer_id'' JNull) (\<lambda>p1.
            and_then (summary_get play ''assist_1_id'' JNull) (\<lambda>p2.
            and_then (summary_get play ''assist_2_id'' JNull) (\<lambda>p3.
            Inr (p1, p2, p3))))
       else and_then (getitem play ''primary_player_id'') (\<lambda>p1.
            and_then (summary_get play ''loser_id'' JNull) (\<lambda>p2.
            and_then (summary_get play ''assist_2_id'' (JInt 0)) (\<lambda>p3.
            Inr (p1, p2, p3)))))"

text \<open>
  One pass of the loop, lines 60 to 121: \<open>event_row\<close>, the eighteen values in the order
  of the \<open>append\<close> calls.
\<close>

definition parse_play :: "json \<Rightarrow> error + json list" where
  "parse_play play =
     and_then (getitem play ''play_index'') (\<lambda>play_index.
     and_then (and_then (getitem play ''created_at'') slice10) (\<lambda>date.
     and_then (getitem play ''clock_time_string'') (\<lambda>clock.
     and_then (seconds_elapsed play) (\<lambda>seconds.
     and_then (getitem play ''game_id'') (\<lambda>game_id.
     and_then (event_type play) (\<lambda>event.
     and_then (event_description play) (\<lambda>description.
     and_then (getitem play ''time_interval'') (\<lambda>period.
     and_then (event_players play) (\<lambda>(p1, p2, p3).
     and_then (getitem play ''team_id'') (\<lambda>team.
     and_then (summary_get play ''x_coord'' JNull) (\<lambda>x.
     and_then (summary_get play ''y_coord'' JNull) (\<lambda>y.
     and_then (action_get play ''away_team_goalie'') (\<lambda>away_goalie.
     and_then (action_get play ''home_team_goalie'') (\<lambda>home_goalie.
     and_then (action_get play ''away_team_score'') (\<lambda>away_score.
     and_then (action_get play ''home_team_score'') (\<lambda>home_score.
     Inr [play_index, date, clock, seconds, game_id, event, description, period,
          p1, p2, p3, team, x, y, away_goalie, home_goalie, away_score, home_score]
     ))))))))))))))))"

text \<open>Lines 124 to 127: the column names of the play table.\<close>

definition cols :: "string list" where
  "cols = [''event_index'', ''date'', ''time'', ''seconds_elapsed'', ''game_id'',
           ''event'', ''event_description'', ''period'',
           ''event_p1'', ''event_p2'', ''event_p3'', ''event_team'', ''x_coord'', ''y_coord'',
           ''away_goalie'', ''home_goalie'', ''away_score'', ''home_score'']"

subsection \<open>Tables\<close>

text \<open>
  A pandas \<open>DataFrame\<close>: its column labels in order and its rows, each row the list of
  its cells with their labels. A lookup takes the first cell under a label, and a
  missing cell reads as NaN.
\<close>

type_synonym row = "(string \<times> json) list"

record frame =
  columns :: "string list"
  rows :: "row list"

definition cell :: "row \<Rightarrow> string \<Rightarrow> json" where
  "cell r c = (case map_of r c of None \<Rightarrow> JNull | Some v \<Rightarrow> v)"

text \<open>
  \<open>pd.DataFrame.from_dict(x)\<close> for the shape the source names at lines 47 and 48, a
  list of one-level dictionaries: the columns are the keys in the order they first
  appear, and a key that a dictionary lacks gives NaN. Any other shape is not modelled.
\<close>

fun scalar :: "json \<Rightarrow> bool" where
  "scalar (JList xs) = False"
| "scalar (JObj kvs) = False"
| "scalar _ = True"

fun one_level :: "json \<Rightarrow> bool" where
  "one_level (JObj kvs) = list_all (\<lambda>kv. scalar (snd kv)) kvs"
| "one_level _ = False"

fun keys :: "json \<Rightarrow> string list" where
  "keys (JObj kvs) = map fst kvs"
| "keys _ = []"

fun entries :: "json \<Rightarrow> row" where
  "entries (JObj kvs) = kvs"
| "entries _ = []"

definition first_seen :: "string list \<Rightarrow> string list" where
  "first_seen ks = rev (remdups (rev ks))"

definition from_dict :: "json \<Rightarrow> error + frame" where
  "from_dict data =
     (case data of
        JList items \<Rightarrow>
          if list_all one_level items
          then (let cs = first_seen (concat (map keys items))
                in Inr \<lparr>columns = cs,
                        rows = map (\<lambda>i. map (\<lambda>c. (c, cell (entries i) c)) cs) items\<rparr>)
          else Inl NotModelled
      | _ \<Rightarrow> Inl NotModelled)"

text \<open>\<open>pd.DataFrame(parsed_plays_list, columns=cols)\<close>.\<close>

definition DataFrame :: "json list list \<Rightarrow> string list \<Rightarrow> frame" where
  "DataFrame values_list cs = \<lparr>columns = cs, rows = map (zip cs) values_list\<rparr>"

text \<open>\<open>df.fillna(0)\<close>.\<close>

definition fillna0 :: "frame \<Rightarrow> frame" where
  "fillna0 df = df\<lparr>rows := map (map (\<lambda>(c, v). (c, if v = JNull then JInt 0 else v))) (rows df)\<rparr>"

text \<open>\<open>df.loc[i, c]\<close> on a table with the default index \<open>0, 1, ...\<close>.\<close>

definition loc :: "frame \<Rightarrow> nat \<Rightarrow> string \<Rightarrow> error + json" where
  "loc df i c =
     (if i < length (rows df) \<and> c \<in> set (columns df) then Inr (cell (rows df ! i) c)
      else Inl KeyError)"

text \<open>
  \<open>df[c] = v\<close> for one value \<open>v\<close> (every row gets it) and \<open>df[c] = vs\<close> for a column of
  values. A new label goes last; an old one keeps its place.
\<close>

definition with_label :: "string \<Rightarrow> string list \<Rightarrow> string list" where
  "with_label c cs = (if c \<in> set cs then cs else cs @ [c])"

definition set_scalar :: "string \<Rightarrow> json \<Rightarrow> frame \<Rightarrow> frame" where
  "set_scalar c v df =
     \<lparr>columns = with_label c (columns df), rows = map (AList.update c v) (rows df)\<rparr>"

definition set_column :: "string \<Rightarrow> json list \<Rightarrow> frame \<Rightarrow> frame" where
  "set_column c vs df =
     \<lparr>columns = with_label c (columns df),
      rows = map (\<lambda>(r, v). AList.update c v r) (zip (rows df) vs)\<rparr>"

text \<open>\<open>df[c]\<close>, the cells of one column.\<close>

definition get_column :: "frame \<Rightarrow> string \<Rightarrow> error + json list" where
  "get_column df c =
     (if c \<in> set (columns df) then Inr (map (\<lambda>r. cell r c) (rows df)) else Inl KeyError)"

text \<open>
  \<open>pd.to_numeric(column, errors='coerce')\<close>, cell by cell. A number stays, a truth value
  is 0 or 1, and what cannot be read as a number becomes NaN instead of raising. How
  pandas reads a string as a number is pandas' own grammar: it is the parameter
  \<open>num\<close> (\<open>None\<close> when the string is not a number).
\<close>

fun to_numeric :: "(string \<Rightarrow> int option) \<Rightarrow> json \<Rightarrow> json" where
  "to_numeric num (JInt n) = JInt n"
| "to_numeric num (JBool b) = JInt (if b then 1 else 0)"
| "to_numeric num (JStr s) = (case num s of None \<Rightarrow> JNull | Some n \<Rightarrow> JInt n)"
| "to_numeric num JNull = JNull"
| "to_numeric num (JList xs) = JNull"
| "to_numeric num (JObj kvs) = JNull"

definition coerce_column :: "(string \<Rightarrow> int option) \<Rightarrow> string \<Rightarrow> frame \<Rightarrow> error + frame" where
  "coerce_column num c df =
     and_then (get_column df c) (\<lambda>vs. Inr (set_column c (map (to_numeric num) vs) df))"

text \<open>
  \<open>df.sort_values(by=[...])\<close>: ascending, the keys compared in the order given, rows
  with equal keys left in their order (with several keys pandas sorts stably). The
  model covers key columns of integers; for any other cell it answers \<open>NotModelled\<close>.
\<close>

fun is_int :: "json \<Rightarrow> bool" where
  "is_int (JInt n) = True"
| "is_int _ = False"

fun int_of :: "json \<Rightarrow> int" where
  "int_of (JInt n) = n"
| "int_of _ = 0"

definition sort_keys :: "string list \<Rightarrow> row \<Rightarrow> int \<times> int \<times> int" where
  "sort_keys by r =
     (int_of (cell r (by ! 0)), int_of (cell r (by ! 1)), int_of (cell r (by ! 2)))"

definition sort_values :: "string list \<Rightarrow> frame \<Rightarrow> error + frame" where
  "sort_values by df =
     (if \<not> list_all (\<lambda>c. c \<in> set (columns df)) by then Inl KeyError
      else if length by = 3 \<and> list_all (\<lambda>r. list_all (\<lambda>c. is_int (cell r c)) by) (rows df)
      then Inr (df\<lparr>rows := sort_key (sort_keys by) (rows df)\<rparr>)
      else Inl NotModelled)"

text \<open>\<open>df[[c1, c2, ...]]\<close>: the named columns, in the order asked for.\<close>

definition select :: "string list \<Rightarrow> frame \<Rightarrow> error + frame" where
  "select cs df =
     (if list_all (\<lambda>c. c \<in> set (columns df)) cs
      then Inr \<lparr>columns = cs, rows = map (\<lambda>r. map (\<lambda>c. (c, cell r c)) cs) (rows df)\<rparr>
      else Inl KeyError)"

text \<open>\<open>df.rename(columns={old: new})\<close>.\<close>

definition relabel :: "(string \<Rightarrow> string) \<Rightarrow> row \<Rightarrow> row" where
  "relabel f r = map (\<lambda>(c, v). (f c, v)) r"

definition rename :: "string \<Rightarrow> string \<Rightarrow> frame \<Rightarrow> frame" where
  "rename old new df =
     \<lparr>columns = map (\<lambda>c. if c = old then new else c) (columns df),
      rows = map (relabel (\<lambda>c. if c = old then new else c)) (rows df)\<rparr>"

text \<open>
  \<open>left.merge(right, how='left', left_on=..., right_on=...)\<close> for two differently
  named key columns of numbers. Every left row is kept, in order: once for each right
  row with an equal key (a missing key equals a missing key), in the order of the right
  table, or once with NaN in the right columns when no key is equal. Both key columns stay
  in the result, and a label that both tables carry gets the suffix \<open>_x\<close> on the left
  and \<open>_y\<close> on the right. A suffixed label may repeat a label the table already has, as
  in the pandas the script was written for (from version 2.0 on pandas raises
  \<open>MergeError\<close> instead, which the fourth merge of \<open>main\<close> would meet). Key columns of
  another type are not modelled.
\<close>

fun numeric :: "json \<Rightarrow> bool" where
  "numeric (JInt n) = True"
| "numeric JNull = True"
| "numeric _ = False"

definition suffixed :: "string list \<Rightarrow> string \<Rightarrow> string \<Rightarrow> string" where
  "suffixed others sfx c = (if c \<in> set others then c @ sfx else c)"

definition matches :: "frame \<Rightarrow> string \<Rightarrow> json \<Rightarrow> row list" where
  "matches right right_on k =
     (case filter (\<lambda>r. cell r right_on = k) (rows right) of
        [] \<Rightarrow> [map (\<lambda>c. (c, JNull)) (columns right)]
      | ms \<Rightarrow> ms)"

definition merge_left :: "frame \<Rightarrow> frame \<Rightarrow> string \<Rightarrow> string \<Rightarrow> error + frame" where
  "merge_left left right left_on right_on =
     (if left_on \<notin> set (columns left) \<or> right_on \<notin> set (columns right) then Inl KeyError
      else if left_on = right_on
              \<or> \<not> list_all (\<lambda>l. numeric (cell l left_on)) (rows left)
              \<or> \<not> list_all (\<lambda>r. numeric (cell r right_on)) (rows right) then Inl NotModelled
      else Inr
        \<lparr>columns = map (suffixed (columns right) ''_x'') (columns left)
                    @ map (suffixed (columns left) ''_y'') (columns right),
         rows = concat (map (\<lambda>l.
                  map (\<lambda>r. relabel (suffixed (columns right) ''_x'') l
                            @ relabel (suffixed (columns left) ''_y'') r)
                      (matches right right_on (cell l left_on)))
                  (rows left))\<rparr>)"

subsection \<open>\<open>convert_pbp_dict\<close>\<close>

text \<open>A \<open>for\<close> loop that stops at the first exception.\<close>

fun for_each :: "('a \<Rightarrow> error + 'b) \<Rightarrow> 'a list \<Rightarrow> error + 'b list" where
  "for_each f [] = Inr []"
| "for_each f (x # xs) =
     and_then (f x) (\<lambda>y. and_then (for_each f xs) (\<lambda>ys. Inr (y # ys)))"

text \<open>
  What \<open>for play in pbp_list\<close> runs over: the elements of a list, the keys of a
  dictionary, the characters of a string.
\<close>

fun py_iter :: "json \<Rightarrow> error + json list" where
  "py_iter (JList xs) = Inr xs"
| "py_iter (JObj kvs) = Inr (map (\<lambda>kv. JStr (fst kv)) kvs)"
| "py_iter (JStr s) = Inr (map (\<lambda>c. JStr [c]) s)"
| "py_iter _ = Inl TypeError"

text \<open>
  Lines 49 to 147: the player and team tables, the loop over the plays, \<open>fillna(0)\<close>,
  the four team columns and the five numeric coercions.
\<close>

definition build_tables :: "(string \<Rightarrow> int option) \<Rightarrow> json \<Rightarrow> error + frame \<times> frame \<times> frame" where
  "build_tables num pbp_dict =
     and_then (and_then (getitem pbp_dict ''roster_player'') from_dict) (\<lambda>player_df.
     and_then (and_then (getitem pbp_dict ''team_instance'') from_dict) (\<lambda>team_df.
     and_then (getitem pbp_dict ''plays'') (\<lambda>pbp_list.
     and_then (and_then (py_iter pbp_list) (for_each parse_play)) (\<lambda>parsed_plays_list.
     let pbp_df = fillna0 (DataFrame parsed_plays_list cols) in
     and_then (loc team_df 0 ''name'') (\<lambda>home_team.
     and_then (loc team_df 0 ''team_id'') (\<lambda>home_team_id.
     and_then (loc team_df 1 ''name'') (\<lambda>away_team.
     and_then (loc team_df 1 ''team_id'') (\<lambda>away_team_id.
     let pbp_df = set_scalar ''home_team'' home_team pbp_df;
         pbp_df = set_scalar ''home_team_id'' home_team_id pbp_df;
         pbp_df = set_scalar ''away_team'' away_team pbp_df;
         pbp_df = set_scalar ''away_team_id'' away_team_id pbp_df in
     and_then (coerce_column num ''event_p1'' pbp_df) (\<lambda>pbp_df.
     and_then (coerce_column num ''event_p2'' pbp_df) (\<lambda>pbp_df.
     and_then (coerce_column num ''event_p3'' pbp_df) (\<lambda>pbp_df.
     and_then (coerce_column num ''away_goalie'' pbp_df) (\<lambda>pbp_df.
     and_then (coerce_column num ''home_goalie'' pbp_df) (\<lambda>pbp_df.
     Inr (pbp_df, player_df, team_df))))))))))))))"

text \<open>Line 149 sorts the play table; line 153 returns the three tables.\<close>

definition convert_pbp_dict :: "(string \<Rightarrow> int option) \<Rightarrow> json \<Rightarrow> error + frame \<times> frame \<times> frame" where
  "convert_pbp_dict num pbp_dict =
     and_then (build_tables num pbp_dict) (\<lambda>(pbp_df, player_df, team_df).
     and_then (sort_values [''period'', ''seconds_elapsed'', ''event_index''] pbp_df) (\<lambda>pbp_df.
     Inr (pbp_df, player_df, team_df)))"

subsection \<open>\<open>pull_player_names\<close>\<close>

text \<open>
  \<open>column.str.strip()\<close> leaves a missing name missing; \<open>+\<close> on two columns of strings
  joins them, and is missing where either side is. A name column holding numbers is not
  modelled (pandas raises or gives NaN, by the dtype of the column).
\<close>

fun strip_cell :: "json \<Rightarrow> error + json" where
  "strip_cell (JStr s) = Inr (JStr (strip s))"
| "strip_cell JNull = Inr JNull"
| "strip_cell _ = Inl NotModelled"

fun str_plus :: "json \<Rightarrow> json \<Rightarrow> json" where
  "str_plus (JStr a) (JStr b) = JStr (a @ b)"
| "str_plus _ _ = JNull"

definition str_strip_column :: "frame \<Rightarrow> string \<Rightarrow> error + json list" where
  "str_strip_column df c = and_then (get_column df c) (for_each strip_cell)"

text \<open>
  Line 172 assigns into the caller's table: \<open>player_df\<close> is the object \<open>main\<close> holds, so
  the function returns it next to the play table.
\<close>

definition pull_player_names :: "frame \<Rightarrow> frame \<Rightarrow> string \<Rightarrow> error + frame \<times> frame" where
  "pull_player_names pbp_df player_df id_column =
     and_then (str_strip_column player_df ''first_name'') (\<lambda>first_name.
     and_then (str_strip_column player_df ''last_name'') (\<lambda>last_name.
     let full_name = map (\<lambda>(f, l). str_plus (str_plus f (JStr '' '')) l) (zip first_name last_name);
         player_df = set_column ''full_name'' full_name player_df in
     and_then (select [''id'', ''full_name''] player_df) (\<lambda>names.
     and_then (merge_left pbp_df names id_column ''id'') (\<lambda>pbp_df.
     Inr (rename ''full_name'' (id_column @ ''_name'') pbp_df, player_df)))))"

subsection \<open>\<open>main\<close>\<close>

definition player_id_columns :: "string list" where
  "player_id_columns = [''event_p1'', ''event_p2'', ''event_p3'', ''away_goalie'', ''home_goalie'']"

text \<open>The loop of lines 195 and 196.\<close>

fun pull_all :: "string list \<Rightarrow> frame \<Rightarrow> frame \<Rightarrow> error + frame \<times> frame" where
  "pull_all [] pbp_df player_df = Inr (pbp_df, player_df)"
| "pull_all (column # rest) pbp_df player_df =
     and_then (pull_player_names pbp_df player_df column) (\<lambda>(pbp_df, player_df).
     pull_all rest pbp_df player_df)"

definition out_columns :: "string list" where
  "out_columns =
     [''event_index'', ''date'', ''time'', ''seconds_elapsed'', ''game_id'', ''event'',
      ''event_description'', ''period'', ''event_p1'', ''event_p1_name'',
      ''event_p2'', ''event_p2_name'', ''event_p3'', ''event_p3_name'', ''event_team'',
      ''x_coord'', ''y_coord'', ''away_goalie'', ''away_goalie_name'', ''home_goalie'',
      ''home_goalie_name'', ''away_score'', ''home_score'', ''home_team_id'', ''home_team'',
      ''away_team_id'', ''away_team'']"

text \<open>
  Lines 190 to 210. The result is what the three \<open>to_csv\<close> calls write: the play table,
  the player table and the team table.
\<close>

definition main :: "(string \<Rightarrow> int option) \<Rightarrow> json \<Rightarrow> error + frame \<times> frame \<times> frame" where
  "main num pbp_dict =
     and_then (convert_pbp_dict num pbp_dict) (\<lambda>(pbp_df, player_df, team_df).
     and_then (pull_all player_id_columns pbp_df player_df) (\<lambda>(pbp_df, player_df).
     and_then (select out_columns pbp_df) (\<lambda>pbp_df.
     Inr (pbp_df, player_df, team_df))))"

section \<open>Example records\<close>

text \<open>
  Small records of the shape the endpoint sends, used to run the functions on concrete
  inputs. \<open>example_play\<close> fixes the fields that no property below depends on.
\<close>

definition example_actions :: json where
  "example_actions =
     JList [JObj [(''away_team_goalie'', JInt 30), (''home_team_goalie'', JInt 31),
                  (''away_team_score'', JInt 0), (''home_team_score'', JInt 1)]]"

definition example_play :: "int \<Rightarrow> json \<Rightarrow> json \<Rightarrow> string \<Rightarrow> string \<Rightarrow> json \<Rightarrow> json \<Rightarrow> json" where
  "example_play i tags clock play_type description summary actions =
     JObj [(''play_index'', JInt i), (''created_at'', JStr ''2019-10-05T19:04:11.000Z''),
           (''clock_time_string'', clock), (''special_tags'', tags),
           (''play_type'', JStr play_type), (''game_id'', JInt 18507472),
           (''play_by_play_string'', JStr description), (''time_interval'', JInt 1),
           (''primary_player_id'', JInt 10), (''play_summary'', summary),
           (''team_id'', JInt 3), (''play_actions'', actions)]"

definition period_end_play :: json where
  "period_end_play =
     example_play 9 (JList [JStr ''ends_time_interval'']) (JStr ''no clock'') ''Shootout''
       ''End of period'' (JObj []) example_actions"

definition shootout_play :: json where
  "shootout_play =
     example_play 7 JNull (JStr ''03:10'') ''Shootout'' ''Shootout attempt'' (JObj [])
       example_actions"

definition faceoff_play :: json where
  "faceoff_play =
     example_play 1 (JList []) (JStr ''05:23'') ''Faceoff'' ''Faceoff'' (JObj [(''loser_id'', JInt 11)])
       example_actions"

definition shot_play :: "json \<Rightarrow> json \<Rightarrow> json" where
  "shot_play scorer assist_2 =
     example_play 3 JNull (JStr ''10:00'') ''Shot'' ''Shot on net''
       (JObj [(''loser_id'', JInt 11), (''scorer_id'', scorer), (''assist_1_id'', JInt 21),
              (''assist_2_id'', assist_2)])
       example_actions"

definition goal_play :: "json \<Rightarrow> json" where
  "goal_play loser =
     example_play 2 JNull (JStr ''12:00'') ''Goal'' ''Goal''
       (JObj [(''scorer_id'', JInt 20), (''assist_1_id'', JInt 21), (''loser_id'', loser)])
       example_actions"





definition example_roster :: json where
  "example_roster =
     JList [JObj [(''id'', JInt 10), (''first_name'', JStr '' Ann ''), (''last_name'', JStr ''Lee '')],
            JObj [(''id'', JInt 20), (''first_name'', JNull), (''last_name'', JStr ''Smith'')],
            JObj [(''id'', JInt 30), (''first_name'', JStr ''Kim''), (''last_name'', JStr ''Park'')]]"

definition example_teams :: json where
  "example_teams =
     JList [JObj [(''team_id'', JInt 3), (''name'', JStr ''Whale'')],
            JObj [(''team_id'', JInt 4), (''name'', JStr ''Pride'')]]"

definition example_record :: "json list \<Rightarrow> json" where
  "example_record plays =
     JObj [(''plays'', JList plays), (''roster_player'', example_roster),
           (''team_instance'', example_teams)]"

section \<open>Notions used to state the properties\<close>

text \<open>
  The full name line 172 computes for one player row: both names stripped and joined
  by a space, missing when either name is.
\<close>

fun stripped :: "json \<Rightarrow> json" where
  "stripped (JStr s) = JStr (strip s)"
| "stripped _ = JNull"

definition full_name_of :: "row \<Rightarrow> json" where
  "full_name_of p =
     str_plus (str_plus (stripped (cell p ''first_name'')) (JStr '' '')) (stripped (cell p ''last_name''))"

text \<open>
  The labels that the merges of \<open>pull_player_names\<close> never touch: every label but the
  two of the right table and their suffixed forms.
\<close>

definition plain :: "string \<Rightarrow> bool" where
  "plain c = (c \<notin> set [''id'', ''full_name'', ''id_x'', ''full_name_x'', ''id_y'', ''full_name_y''])"

text \<open>Every cell of a row stands under a label of its table.\<close>

definition labelled :: "frame \<Rightarrow> bool" where
  "labelled df = list_all (\<lambda>r. list_all (\<lambda>kv. fst kv \<in> set (columns df)) r) (rows df)"

text \<open>
  The right table of the merge in line 175, \<open>player_df[['id', 'full_name']]\<close>, and the
  rows that one row \<open>l\<close> of the play table becomes in \<open>pull_player_names\<close>.
\<close>

definition names_of :: "row list \<Rightarrow> frame" where
  "names_of players =
     \<lparr>columns = [''id'', ''full_name''],
      rows = map (\<lambda>p. [(''id'', cell p ''id''), (''full_name'', full_name_of p)]) players\<rparr>"

definition joined :: "string \<Rightarrow> string list \<Rightarrow> row list \<Rightarrow> row \<Rightarrow> row list" where
  "joined c left_columns players l =
     map (\<lambda>r. relabel (\<lambda>k. if k = ''full_name'' then c @ ''_name'' else k)
                (relabel (suffixed [''id'', ''full_name''] ''_x'') l
                 @ relabel (suffixed left_columns ''_y'') r))
         (matches (names_of players) ''id'' (cell l c))"

text \<open>
  The identifiers of the player table with the full names, in the order of the table; a
  name resolves an identifier when it is the name of an entry with that identifier, or
  is missing when there is no such entry.
\<close>

definition directory :: "row list \<Rightarrow> (json \<times> json) list" where
  "directory players = map (\<lambda>p. (cell p ''id'', full_name_of p)) players"

definition resolved :: "(json \<times> json) list \<Rightarrow> json \<Rightarrow> json \<Rightarrow> bool" where
  "resolved dir k name =
     (case filter (\<lambda>e. fst e = k) dir of
        [] \<Rightarrow> name = JNull
      | ms \<Rightarrow> name \<in> snd ` set ms)"

definition name_labels :: "string list \<Rightarrow> string list" where
  "name_labels cs = map (\<lambda>c. c @ ''_name'') cs"


text \<open>The sort key of line 149.\<close>

definition key3 :: "row \<Rightarrow> int \<times> int \<times> int" where
  "key3 = sort_keys [''period'', ''seconds_elapsed'', ''event_index'']"


text \<open>The record the table properties are run on: a goal listed before an earlier faceoff.\<close>

definition example_game :: json where
  "example_game = example_record [goal_play JNull, faceoff_play]"

section \<open>Properties\<close>

subsection \<open>The loop body\<close>

lemma and_then_Inl [simp]: "and_then (Inl e) f = Inl e"
  by (simp add: and_then_def)

lemma and_then_Inr [simp]: "and_then (Inr v) f = f v"
  by (simp add: and_then_def)

lemma and_then_eq_Inr: "and_then m f = Inr y \<longleftrightarrow> (\<exists>x. m = Inr x \<and> f x = Inr y)"
  by (cases m) simp_all

lemma cell_zip_cols:
  "cell (zip cols [a0, a1, a2, a3, a4, a5, a6, a7, a8, a9, a10, a11, a12, a13, a14, a15, a16, a17]) c =
     (if c = ''event_index'' then a0 else if c = ''date'' then a1 else if c = ''time'' then a2
      else if c = ''seconds_elapsed'' then a3 else if c = ''game_id'' then a4
      else if c = ''event'' then a5 else if c = ''event_description'' then a6
      else if c = ''period'' then a7 else if c = ''event_p1'' then a8
      else if c = ''event_p2'' then a9 else if c = ''event_p3'' then a10
      else if c = ''event_team'' then a11 else if c = ''x_coord'' then a12
      else if c = ''y_coord'' then a13 else if c = ''away_goalie'' then a14
      else if c = ''home_goalie'' then a15 else if c = ''away_score'' then a16
      else if c = ''home_score'' then a17 else JNull)"
  by (simp add: cell_def cols_def)

lemma parse_play_steps:
  assumes "parse_play play = Inr r"
  shows "\<exists>play_index date clock seconds game_id event description period p1 p2 p3 team x y
           away_goalie home_goalie away_score home_score.
           getitem play ''play_index'' = Inr play_index
         \<and> and_then (getitem play ''created_at'') slice10 = Inr date
         \<and> getitem play ''clock_time_string'' = Inr clock
         \<and> seconds_elapsed play = Inr seconds
         \<and> getitem play ''game_id'' = Inr game_id
         \<and> event_type play = Inr event
         \<and> event_description play = Inr description
         \<and> getitem play ''time_interval'' = Inr period
         \<and> event_players play = Inr (p1, p2, p3)
         \<and> getitem play ''team_id'' = Inr team
         \<and> summary_get play ''x_coord'' JNull = Inr x
         \<and> summary_get play ''y_coord'' JNull = Inr y
         \<and> action_get play ''away_team_goalie'' = Inr away_goalie
         \<and> action_get play ''home_team_goalie'' = Inr home_goalie
         \<and> action_get play ''away_team_score'' = Inr away_score
         \<and> action_get play ''home_team_score'' = Inr home_score
         \<and> r = [play_index, date, clock, seconds, game_id, event, description, period,
                p1, p2, p3, team, x, y, away_goalie, home_goalie, away_score, home_score]"
  using assms by (auto simp: parse_play_def and_then_eq_Inr split: prod.splits)

lemma parse_play_seconds:
  "parse_play play = Inr r \<Longrightarrow> seconds_elapsed play = Inr (cell (zip cols r) ''seconds_elapsed'')"
  by (drule parse_play_steps) (auto simp: cell_zip_cols)

lemma parse_play_event:
  "parse_play play = Inr r \<Longrightarrow> event_type play = Inr (cell (zip cols r) ''event'')"
  by (drule parse_play_steps) (auto simp: cell_zip_cols)

lemma parse_play_players:
  "parse_play play = Inr r \<Longrightarrow>
   event_players play = Inr (cell (zip cols r) ''event_p1'', cell (zip cols r) ''event_p2'',
                             cell (zip cols r) ''event_p3'')"
  by (drule parse_play_steps) (auto simp: cell_zip_cols)





text \<open>
  Claim C2. A play whose \<open>special_tags\<close> is a list that starts with
  \<open>"ends_time_interval"\<close> gets 1200 elapsed seconds and the event \<open>Period End\<close>, whatever
  its clock and its play type are: both steps succeed with these values, and every row
  the loop body builds for the play carries them.
\<close>

theorem period_end_row:
  assumes "getitem play ''special_tags'' = Inr (JList (JStr ''ends_time_interval'' # tags))"
  shows "seconds_elapsed play = Inr (JInt 1200) \<and> event_type play = Inr (JStr ''Period End'')
       \<and> (\<forall>r. parse_play play = Inr r \<longrightarrow>
                cell (zip cols r) ''seconds_elapsed'' = JInt 1200
              \<and> cell (zip cols r) ''event'' = JStr ''Period End'')"
proof -
  have pe: "ends_time_interval play = Inr True"
    using assms by (simp add: ends_time_interval_def)
  have sec: "seconds_elapsed play = Inr (JInt 1200)"
    by (simp add: seconds_elapsed_def pe)
  have ev: "event_type play = Inr (JStr ''Period End'')"
    by (simp add: event_type_def pe)
  show ?thesis
    using sec ev parse_play_seconds[of play] parse_play_event[of play] by auto
qed

text \<open>
  The theorem at a play with the tag, a clock that is no time and the play type
  \<open>Shootout\<close>.
\<close>

theorem period_end_row_witness:
  "getitem period_end_play ''special_tags'' = Inr (JList [JStr ''ends_time_interval''])
   \<and> getitem period_end_play ''clock_time_string'' = Inr (JStr ''no clock'')
   \<and> getitem period_end_play ''play_type'' = Inr (JStr ''Shootout'')
   \<and> (\<exists>r. parse_play period_end_play = Inr r
          \<and> cell (zip cols r) ''seconds_elapsed'' = JInt 1200
          \<and> cell (zip cols r) ''event'' = JStr ''Period End'')"
proof -
  have tags: "getitem period_end_play ''special_tags'' = Inr (JList [JStr ''ends_time_interval''])"
    by (simp add: period_end_play_def example_play_def)
  have row: "\<not> isl (parse_play period_end_play)"
    by code_simp
  then obtain r where "parse_play period_end_play = Inr r"
    by (cases "parse_play period_end_play") auto
  with period_end_row[OF tags] show ?thesis
    by (auto simp: period_end_play_def example_play_def)
qed



text \<open>
  Claim C10. When \<open>special_tags\<close> is \<open>None\<close> or the empty list, its first element
  cannot be read (\<open>tags[0]\<close> would raise), yet the test of lines 71 and 88 is false
  without raising: the event is the raw play type, and the elapsed seconds come from
  the \<open>Shootout\<close> branch or from the clock.
\<close>

theorem untagged_falls_through:
  assumes "getitem play ''special_tags'' = Inr tags" and "tags = JNull \<or> tags = JList []"
  shows "isl (getitem0 tags)
       \<and> ends_time_interval play = Inr False
       \<and> event_type play = getitem play ''play_type''
       \<and> seconds_elapsed play =
           and_then (getitem play ''play_type'') (\<lambda>play_type.
             if play_type = JStr ''Shootout'' then Inr (JInt 0)
             else (case and_then (getitem play ''clock_time_string'') clock_seconds of
                     Inr n \<Rightarrow> Inr (JInt n)
                   | Inl AttributeError \<Rightarrow> Inr (JInt 0)
                   | Inl e \<Rightarrow> Inl e))"
proof -
  have pe: "ends_time_interval play = Inr False"
    using assms by (auto simp: ends_time_interval_def)
  show ?thesis
    using assms(2) by (auto simp: pe event_type_def seconds_elapsed_def)
qed

text \<open>
  The theorem at a play whose tags are \<open>None\<close> and at one whose tags are the empty
  list.
\<close>

theorem untagged_falls_through_witness:
  "getitem shootout_play ''special_tags'' = Inr JNull
   \<and> getitem0 JNull = Inl TypeError
   \<and> ends_time_interval shootout_play = Inr False
   \<and> event_type shootout_play = Inr (JStr ''Shootout'')
   \<and> seconds_elapsed shootout_play = Inr (JInt 0)
   \<and> getitem faceoff_play ''special_tags'' = Inr (JList [])
   \<and> getitem0 (JList []) = Inl IndexError
   \<and> ends_time_interval faceoff_play = Inr False
   \<and> event_type faceoff_play = Inr (JStr ''Faceoff'')
   \<and> seconds_elapsed faceoff_play = Inr (JInt 323)"
proof -
  have s: "getitem shootout_play ''special_tags'' = Inr JNull"
    by (simp add: shootout_play_def example_play_def)
  have f: "getitem faceoff_play ''special_tags'' = Inr (JList [])"
    by (simp add: faceoff_play_def example_play_def)
  have sp: "getitem shootout_play ''play_type'' = Inr (JStr ''Shootout'')"
    by (simp add: shootout_play_def example_play_def)
  have fp: "getitem faceoff_play ''play_type'' = Inr (JStr ''Faceoff'')"
    by (simp add: faceoff_play_def example_play_def)
  have fc: "and_then (getitem faceoff_play ''clock_time_string'') clock_seconds = Inr 323"
    by code_simp
  from untagged_falls_through[OF s] untagged_falls_through[OF f] show ?thesis
    by (simp add: s f sp fp fc)
qed

text \<open>
  Claim C1, as amended. For a play with a description \<open>d\<close> and a summary \<open>s\<close>: when
  \<open>d\<close> contains \<open>Goal\<close> the participants are the summary's \<open>scorer_id\<close>, \<open>assist_1_id\<close>
  and \<open>assist_2_id\<close> (\<open>None\<close> when absent), and two such plays that agree on these three
  fields get the same participants, whatever \<open>primary_player_id\<close> and \<open>loser_id\<close> hold.
  Otherwise they are the play's \<open>primary_player_id\<close>, the summary's \<open>loser_id\<close> and
  its \<open>assist_2_id\<close> (0 when absent), and two such plays that agree on these three
  fields get the same participants, whatever \<open>scorer_id\<close> and \<open>assist_1_id\<close> hold. These
  are the cells \<open>event_p1\<close>, \<open>event_p2\<close> and \<open>event_p3\<close> of the row the loop body builds.
\<close>

theorem participants_by_description:
  assumes "getitem play ''play_by_play_string'' = Inr (JStr d)"
      and "getitem play ''play_summary'' = Inr (JObj s)"
      and "getitem play' ''play_by_play_string'' = Inr (JStr d)"
      and "getitem play' ''play_summary'' = Inr (JObj s')"
  shows "(contains ''Goal'' d \<longrightarrow>
            event_players play =
              Inr (cell s ''scorer_id'', cell s ''assist_1_id'', cell s ''assist_2_id'')
          \<and> (map_of s' ''scorer_id'' = map_of s ''scorer_id''
             \<and> map_of s' ''assist_1_id'' = map_of s ''assist_1_id''
             \<and> map_of s' ''assist_2_id'' = map_of s ''assist_2_id'' \<longrightarrow>
               event_players play' = event_players play))
       \<and> (\<not> contains ''Goal'' d \<longrightarrow>
            event_players play =
              and_then (getitem play ''primary_player_id'') (\<lambda>p1.
                Inr (p1, cell s ''loser_id'',
                     case map_of s ''assist_2_id'' of None \<Rightarrow> JInt 0 | Some v \<Rightarrow> v))
          \<and> (getitem play' ''primary_player_id'' = getitem play ''primary_player_id''
             \<and> map_of s' ''loser_id'' = map_of s ''loser_id''
             \<and> map_of s' ''assist_2_id'' = map_of s ''assist_2_id'' \<longrightarrow>
               event_players play' = event_players play))
       \<and> (\<forall>r. parse_play play = Inr r \<longrightarrow>
            event_players play =
              Inr (cell (zip cols r) ''event_p1'', cell (zip cols r) ''event_p2'',
                   cell (zip cols r) ''event_p3''))"
proof -
  have goal: "event_players p =
      Inr (cell t ''scorer_id'', cell t ''assist_1_id'', cell t ''assist_2_id'')"
    if "contains ''Goal'' d" "getitem p ''play_by_play_string'' = Inr (JStr d)"
       "getitem p ''play_summary'' = Inr (JObj t)" for p t
    using that by (simp add: event_players_def summary_get_def cell_def)
  have other: "event_players p =
      and_then (getitem p ''primary_player_id'') (\<lambda>p1.
        Inr (p1, cell t ''loser_id'', case map_of t ''assist_2_id'' of None \<Rightarrow> JInt 0 | Some v \<Rightarrow> v))"
    if "\<not> contains ''Goal'' d" "getitem p ''play_by_play_string'' = Inr (JStr d)"
       "getitem p ''play_summary'' = Inr (JObj t)" for p t
    using that by (cases "getitem p ''primary_player_id''")
      (simp_all add: event_players_def summary_get_def cell_def)
  show ?thesis
  proof (intro conjI impI allI)
    assume "contains ''Goal'' d"
    then show "event_players play =
      Inr (cell s ''scorer_id'', cell s ''assist_1_id'', cell s ''assist_2_id'')"
      using assms(1,2) by (rule goal)
  next
    assume "contains ''Goal'' d"
       and "map_of s' ''scorer_id'' = map_of s ''scorer_id''
             \<and> map_of s' ''assist_1_id'' = map_of s ''assist_1_id''
             \<and> map_of s' ''assist_2_id'' = map_of s ''assist_2_id''"
    then show "event_players play' = event_players play"
      using goal[OF _ assms(1,2)] goal[OF _ assms(3,4)] by (simp add: cell_def)
  next
    assume "\<not> contains ''Goal'' d"
    then show "event_players play =
      and_then (getitem play ''primary_player_id'') (\<lambda>p1.
        Inr (p1, cell s ''loser_id'', case map_of s ''assist_2_id'' of None \<Rightarrow> JInt 0 | Some v \<Rightarrow> v))"
      using assms(1,2) by (rule other)
  next
    assume "\<not> contains ''Goal'' d"
       and "getitem play' ''primary_player_id'' = getitem play ''primary_player_id''
             \<and> map_of s' ''loser_id'' = map_of s ''loser_id''
             \<and> map_of s' ''assist_2_id'' = map_of s ''assist_2_id''"
    then show "event_players play' = event_players play"
      using other[OF _ assms(1,2)] other[OF _ assms(3,4)] by (simp add: cell_def)
  next
    fix r assume "parse_play play = Inr r"
    then show "event_players play =
              Inr (cell (zip cols r) ''event_p1'', cell (zip cols r) ''event_p2'',
                   cell (zip cols r) ''event_p3'')"
      by (rule parse_play_players)
  qed
qed

text \<open>
  The theorem at a goal (two summaries that differ in \<open>loser_id\<close>) and at a shot
  (two summaries that differ in \<open>scorer_id\<close>).
\<close>

theorem participants_by_description_witness:
  "contains ''Goal'' ''Goal''
   \<and> event_players (goal_play (JInt 11)) = Inr (JInt 20, JInt 21, JNull)
   \<and> event_players (goal_play (JInt 12)) = event_players (goal_play (JInt 11))
   \<and> \<not> contains ''Goal'' ''Shot on net''
   \<and> event_players (shot_play (JInt 20) (JInt 22)) = Inr (JInt 10, JInt 11, JInt 22)
   \<and> event_players (shot_play (JInt 99) (JInt 22)) = event_players (shot_play (JInt 20) (JInt 22))
   \<and> (\<exists>r. parse_play (goal_play (JInt 11)) = Inr r
          \<and> cell (zip cols r) ''event_p1'' = JInt 20 \<and> cell (zip cols r) ''event_p2'' = JInt 21
          \<and> cell (zip cols r) ''event_p3'' = JNull)"
proof -
  let ?gs = "\<lambda>l. [(''scorer_id'', JInt 20), (''assist_1_id'', JInt 21), (''loser_id'', l)]"
  let ?ss = "\<lambda>c. [(''loser_id'', JInt 11), (''scorer_id'', c), (''assist_1_id'', JInt 21),
                  (''assist_2_id'', JInt 22)]"
  have g: "getitem (goal_play l) ''play_by_play_string'' = Inr (JStr ''Goal'')"
          "getitem (goal_play l) ''play_summary'' = Inr (JObj (?gs l))" for l
    by (simp_all add: goal_play_def example_play_def)
  have s: "getitem (shot_play c (JInt 22)) ''play_by_play_string'' = Inr (JStr ''Shot on net'')"
          "getitem (shot_play c (JInt 22)) ''play_summary'' = Inr (JObj (?ss c))"
          "getitem (shot_play c (JInt 22)) ''primary_player_id'' = Inr (JInt 10)" for c
    by (simp_all add: shot_play_def example_play_def)
  have c1: "contains ''Goal'' ''Goal''" and c2: "\<not> contains ''Goal'' ''Shot on net''"
    by simp_all
  have "\<not> isl (parse_play (goal_play (JInt 11)))"
    by code_simp
  then obtain r where r: "parse_play (goal_play (JInt 11)) = Inr r"
    by (cases "parse_play (goal_play (JInt 11))") auto
  note goal = participants_by_description[OF g(1,2)[of "JInt 11"] g(1,2)[of "JInt 12"]]
  from goal c1
  have a: "event_players (goal_play (JInt 11)) = Inr (JInt 20, JInt 21, JNull)"
          "event_players (goal_play (JInt 12)) = event_players (goal_play (JInt 11))"
    by (simp_all add: cell_def)
  from goal r
  have a': "event_players (goal_play (JInt 11)) =
              Inr (cell (zip cols r) ''event_p1'', cell (zip cols r) ''event_p2'',
                   cell (zip cols r) ''event_p3'')"
    by blast
  from participants_by_description[OF s(1,2)[of "JInt 20"] s(1,2)[of "JInt 99"]] c2
  have b: "event_players (shot_play (JInt 20) (JInt 22)) = Inr (JInt 10, JInt 11, JInt 22)"
          "event_players (shot_play (JInt 99) (JInt 22)) = event_players (shot_play (JInt 20) (JInt 22))"
    by (simp_all add: cell_def s(3))
  show ?thesis
    using c1 c2 a a' b r by auto
qed

text \<open>
  Claim C1 as stated fails in its last sentence: the row of a play that is not a goal
  does use an assist field. Two shots that differ only in the summary's \<open>assist_2_id\<close>
  get different third participants.
\<close>

theorem assist_used_in_other_rows:
  "and_then (getitem (shot_play (JInt 20) (JInt 22)) ''play_by_play_string'') (py_in ''Goal'') = Inr False
   \<and> summary_get (shot_play (JInt 20) (JInt 22)) ''assist_2_id'' JNull = Inr (JInt 22)
   \<and> event_players (shot_play (JInt 20) (JInt 22)) = Inr (JInt 10, JInt 11, JInt 22)
   \<and> summary_get (shot_play (JInt 20) (JInt 23)) ''assist_2_id'' JNull = Inr (JInt 23)
   \<and> event_players (shot_play (JInt 20) (JInt 23)) = Inr (JInt 10, JInt 11, JInt 23)"
  by (simp add: shot_play_def example_play_def event_players_def summary_get_def)











subsection \<open>Tables: what each step returns\<close>

lemma cell_update: "cell (AList.update c v r) c' = (if c' = c then v else cell r c')"
  by (simp add: cell_def update_conv')

lemma zip_with_map: "zip xs (map f xs) = map (\<lambda>x. (x, f x)) xs"
  by (induction xs) simp_all

lemma coerce_column_Inr:
  assumes "coerce_column num c df = Inr df'"
  shows "columns df' = columns df"
    and "rows df' = map (\<lambda>r. AList.update c (to_numeric num (cell r c)) r) (rows df)"
  using assms
  by (auto simp: coerce_column_def get_column_def set_column_def with_label_def
                 zip_with_map o_def split: if_splits)

lemma loc_Inr:
  assumes "loc df i c = Inr v"
  shows "i < length (rows df)" and "v = cell (rows df ! i) c"
  using assms by (auto simp: loc_def split: if_splits)

lemma sort_values_Inr:
  assumes "sort_values by df = Inr df'"
  shows "columns df' = columns df"
    and "rows df' = sort_key (sort_keys by) (rows df)"
    and "\<forall>r\<in>set (rows df). \<forall>c\<in>set by. is_int (cell r c)"
  using assms by (auto simp: sort_values_def list_all_iff split: if_splits)

lemma build_tables_Inr:
  assumes "build_tables num pbp_dict = Inr (pbp_df, player_df, team_df)"
  shows "and_then (getitem pbp_dict ''roster_player'') from_dict = Inr player_df"
    and "and_then (getitem pbp_dict ''team_instance'') from_dict = Inr team_df"
    and "1 < length (rows team_df)"
    and "columns pbp_df = cols @ [''home_team'', ''home_team_id'', ''away_team'', ''away_team_id'']"
    and "\<forall>r\<in>set (rows pbp_df).
           cell r ''home_team'' = cell (rows team_df ! 0) ''name''
         \<and> cell r ''home_team_id'' = cell (rows team_df ! 0) ''team_id''
         \<and> cell r ''away_team'' = cell (rows team_df ! 1) ''name''
         \<and> cell r ''away_team_id'' = cell (rows team_df ! 1) ''team_id''"
proof -
  from assms obtain parsed home_team home_team_id away_team away_team_id df1 df2 df3 df4 where
    pl: "and_then (getitem pbp_dict ''roster_player'') from_dict = Inr player_df" and
    tm: "and_then (getitem pbp_dict ''team_instance'') from_dict = Inr team_df" and
    l1: "loc team_df 0 ''name'' = Inr home_team" and
    l2: "loc team_df 0 ''team_id'' = Inr home_team_id" and
    l3: "loc team_df 1 ''name'' = Inr away_team" and
    l4: "loc team_df 1 ''team_id'' = Inr away_team_id" and
    c1: "coerce_column num ''event_p1''
           (set_scalar ''away_team_id'' away_team_id (set_scalar ''away_team'' away_team
             (set_scalar ''home_team_id'' home_team_id (set_scalar ''home_team'' home_team
               (fillna0 (DataFrame parsed cols)))))) = Inr df1" and
    c2: "coerce_column num ''event_p2'' df1 = Inr df2" and
    c3: "coerce_column num ''event_p3'' df2 = Inr df3" and
    c4: "coerce_column num ''away_goalie'' df3 = Inr df4" and
    c5: "coerce_column num ''home_goalie'' df4 = Inr pbp_df"
    by (auto simp: build_tables_def and_then_eq_Inr Let_def)
  show "and_then (getitem pbp_dict ''roster_player'') from_dict = Inr player_df" by (rule pl)
  show "and_then (getitem pbp_dict ''team_instance'') from_dict = Inr team_df" by (rule tm)
  show "1 < length (rows team_df)" using loc_Inr(1)[OF l3] by simp
  show "columns pbp_df = cols @ [''home_team'', ''home_team_id'', ''away_team'', ''away_team_id'']"
    by (simp add: coerce_column_Inr(1)[OF c5] coerce_column_Inr(1)[OF c4] coerce_column_Inr(1)[OF c3]
        coerce_column_Inr(1)[OF c2] coerce_column_Inr(1)[OF c1]
        set_scalar_def with_label_def fillna0_def DataFrame_def cols_def)
  show "\<forall>r\<in>set (rows pbp_df).
           cell r ''home_team'' = cell (rows team_df ! 0) ''name''
         \<and> cell r ''home_team_id'' = cell (rows team_df ! 0) ''team_id''
         \<and> cell r ''away_team'' = cell (rows team_df ! 1) ''name''
         \<and> cell r ''away_team_id'' = cell (rows team_df ! 1) ''team_id''"
    using loc_Inr(2)[OF l1] loc_Inr(2)[OF l2] loc_Inr(2)[OF l3] loc_Inr(2)[OF l4]
    by (auto simp: coerce_column_Inr(2)[OF c5] coerce_column_Inr(2)[OF c4] coerce_column_Inr(2)[OF c3]
        coerce_column_Inr(2)[OF c2] coerce_column_Inr(2)[OF c1]
        set_scalar_def cell_update)
qed

lemma convert_pbp_dict_Inr:
  assumes "convert_pbp_dict num pbp_dict = Inr (pbp_df, player_df, team_df)"
  shows "\<exists>unsorted. build_tables num pbp_dict = Inr (unsorted, player_df, team_df)
           \<and> sort_values [''period'', ''seconds_elapsed'', ''event_index''] unsorted = Inr pbp_df"
  using assms by (auto simp: convert_pbp_dict_def and_then_eq_Inr split: prod.splits)

lemma for_each_Inr:
  assumes "for_each f xs = Inr ys" and "\<And>x y. f x = Inr y \<Longrightarrow> y = g x"
  shows "ys = map g xs"
  using assms by (induction xs arbitrary: ys) (auto simp: and_then_eq_Inr)

lemma strip_cell_stripped: "strip_cell v = Inr w \<Longrightarrow> w = stripped v"
  by (cases v) simp_all

lemma str_strip_column_Inr:
  assumes "str_strip_column df c = Inr vs"
  shows "vs = map (\<lambda>r. stripped (cell r c)) (rows df)"
proof -
  from assms have "for_each strip_cell (map (\<lambda>r. cell r c) (rows df)) = Inr vs"
    by (auto simp: str_strip_column_def get_column_def and_then_eq_Inr split: if_splits)
  from for_each_Inr[OF this strip_cell_stripped] show ?thesis
    by (simp add: o_def)
qed

lemma relabel_append: "relabel f (xs @ ys) = relabel f xs @ relabel f ys"
  by (simp add: relabel_def)

lemma relabel_relabel: "relabel f (relabel g r) = relabel (f \<circ> g) r"
  by (simp add: relabel_def o_def split_def)

lemma map_of_relabel_same:
  assumes "\<forall>k\<in>fst ` set r. f k = c \<longrightarrow> k = c" and "f c = c"
  shows "map_of (relabel f r) c = map_of r c"
  using assms by (induction r) (auto simp: relabel_def)

lemma map_of_relabel_none:
  assumes "\<forall>k\<in>fst ` set r. f k \<noteq> c"
  shows "map_of (relabel f r) c = None"
  using assms by (induction r) (auto simp: relabel_def)

lemma pull_player_names_Inr:
  assumes "pull_player_names pbp_df player_df c = Inr (pbp_df', player_df')"
  shows "columns player_df' = with_label ''full_name'' (columns player_df)"
    and "rows player_df' = map (\<lambda>p. AList.update ''full_name'' (full_name_of p) p) (rows player_df)"
    and "columns pbp_df' =
           map (\<lambda>k. if k = ''full_name'' then c @ ''_name'' else k)
             (map (suffixed [''id'', ''full_name''] ''_x'') (columns pbp_df)
              @ map (suffixed (columns pbp_df) ''_y'') [''id'', ''full_name''])"
    and "rows pbp_df' = concat (map (joined c (columns pbp_df) (rows player_df)) (rows pbp_df))"
    and "c \<in> set (columns pbp_df)"
proof -
  let ?full = "map (\<lambda>(f, l). str_plus (str_plus f (JStr '' '')) l)
                 (zip (map (\<lambda>r. stripped (cell r ''first_name'')) (rows player_df))
                      (map (\<lambda>r. stripped (cell r ''last_name'')) (rows player_df)))"
  have full: "?full = map full_name_of (rows player_df)"
    by (simp add: full_name_of_def zip_map_map zip_same_conv_map o_def)
  from assms obtain names merged where
    pl: "player_df' = set_column ''full_name'' (map full_name_of (rows player_df)) player_df" and
    sel: "select [''id'', ''full_name''] player_df' = Inr names" and
    mg: "merge_left pbp_df names c ''id'' = Inr merged" and
    out: "pbp_df' = rename ''full_name'' (c @ ''_name'') merged"
    by (auto simp: pull_player_names_def and_then_eq_Inr Let_def full[symmetric]
             dest!: str_strip_column_Inr)
  show "columns player_df' = with_label ''full_name'' (columns player_df)"
    by (simp add: pl set_column_def)
  show rws: "rows player_df' = map (\<lambda>p. AList.update ''full_name'' (full_name_of p) p) (rows player_df)"
    by (simp add: pl set_column_def zip_with_map o_def)
  have names: "names = names_of (rows player_df)"
    using sel by (auto simp: select_def names_of_def rws cell_update o_def split: if_splits)
  show "c \<in> set (columns pbp_df)"
    using mg by (auto simp: merge_left_def split: if_splits)
  from mg have merged:
    "merged = \<lparr>columns = map (suffixed (columns names) ''_x'') (columns pbp_df)
                    @ map (suffixed (columns pbp_df) ''_y'') (columns names),
         rows = concat (map (\<lambda>l.
                  map (\<lambda>r. relabel (suffixed (columns names) ''_x'') l
                            @ relabel (suffixed (columns pbp_df) ''_y'') r)
                      (matches names ''id'' (cell l c)))
                  (rows pbp_df))\<rparr>"
    by (auto simp: merge_left_def split: if_splits)
  show "columns pbp_df' =
           map (\<lambda>k. if k = ''full_name'' then c @ ''_name'' else k)
             (map (suffixed [''id'', ''full_name''] ''_x'') (columns pbp_df)
              @ map (suffixed (columns pbp_df) ''_y'') [''id'', ''full_name''])"
    by (simp add: out rename_def merged names names_of_def)
  show "rows pbp_df' = concat (map (joined c (columns pbp_df) (rows player_df)) (rows pbp_df))"
    by (simp add: out rename_def merged names joined_def[abs_def] map_concat o_def names_of_def)
qed

lemma matches_names_of:
  "matches (names_of players) ''id'' k =
     (case filter (\<lambda>p. cell p ''id'' = k) players of
        [] \<Rightarrow> [[(''id'', JNull), (''full_name'', JNull)]]
      | ms \<Rightarrow> map (\<lambda>p. [(''id'', cell p ''id''), (''full_name'', full_name_of p)]) ms)"
proof -
  have "filter (\<lambda>r. cell r ''id'' = k) (map (\<lambda>p. [(''id'', cell p ''id''), (''full_name'', full_name_of p)]) players)
        = map (\<lambda>p. [(''id'', cell p ''id''), (''full_name'', full_name_of p)]) (filter (\<lambda>p. cell p ''id'' = k) players)"
    by (induction players) (simp_all add: cell_def)
  then show ?thesis
    by (simp add: matches_def names_of_def split: list.splits)
qed

lemma joined_nonempty: "joined c cs players l \<noteq> []"
  by (simp add: joined_def matches_names_of split: list.splits)

lemma right_keys:
  assumes "r \<in> set (matches (names_of players) ''id'' k)"
  shows "\<exists>v n. r = [(''id'', v), (''full_name'', n)]"
  using assms by (auto simp: matches_names_of split: list.splits)

lemma joined_plain:
  assumes "r' \<in> set (joined c cs players l)" and "plain k" and "k \<noteq> c @ ''_name''"
  shows "cell r' k = cell l k"
proof -
  let ?rn = "\<lambda>j. if j = ''full_name'' then c @ ''_name'' else j"
  from assms(1) obtain r where r: "r \<in> set (matches (names_of players) ''id'' (cell l c))"
    and r': "r' = relabel ?rn (relabel (suffixed [''id'', ''full_name''] ''_x'') l
                              @ relabel (suffixed cs ''_y'') r)"
    by (auto simp: joined_def)
  from right_keys[OF r] obtain v n where rk: "r = [(''id'', v), (''full_name'', n)]"
    by blast
  have pk: "k \<noteq> ''full_name''" using assms(2) by (simp add: plain_def)
  have left: "map_of (relabel (?rn \<circ> suffixed [''id'', ''full_name''] ''_x'') l) k = map_of l k"
  proof (rule map_of_relabel_same)
    show "\<forall>j\<in>fst ` set l. (?rn \<circ> suffixed [''id'', ''full_name''] ''_x'') j = k \<longrightarrow> j = k"
      using assms(2,3) by (auto simp: suffixed_def plain_def split: if_splits)
    show "(?rn \<circ> suffixed [''id'', ''full_name''] ''_x'') k = k"
      using assms(2) by (auto simp: suffixed_def plain_def)
  qed
  have right: "map_of (relabel (?rn \<circ> suffixed cs ''_y'') r) k = None"
    using assms(2,3) by (auto simp: rk relabel_def suffixed_def plain_def)
  show ?thesis
    by (simp add: r' relabel_append relabel_relabel cell_def left right map_add_def
             split: option.splits)
qed

lemma joined_name:
  assumes "c @ ''_name'' \<notin> fst ` set l" and "''full_name'' \<notin> set cs" and "plain (c @ ''_name'')"
  shows "map (\<lambda>r'. cell r' (c @ ''_name'')) (joined c cs players l) =
           (case filter (\<lambda>p. cell p ''id'' = cell l c) players of
              [] \<Rightarrow> [JNull]
            | ms \<Rightarrow> map full_name_of ms)"
proof -
  let ?rn = "\<lambda>j. if j = ''full_name'' then c @ ''_name'' else j"
  have left: "map_of (relabel (?rn \<circ> suffixed [''id'', ''full_name''] ''_x'') l) (c @ ''_name'') = None"
  proof (rule map_of_relabel_none)
    show "\<forall>j\<in>fst ` set l. (?rn \<circ> suffixed [''id'', ''full_name''] ''_x'') j \<noteq> c @ ''_name''"
      using assms(1,3) by (force simp: suffixed_def plain_def split: if_splits)
  qed
  have one: "cell (relabel ?rn (relabel (suffixed [''id'', ''full_name''] ''_x'') l
                @ relabel (suffixed cs ''_y'') [(''id'', v), (''full_name'', n)])) (c @ ''_name'') = n"
    for v n
  proof -
    have right: "map_of (relabel (?rn \<circ> suffixed cs ''_y'') [(''id'', v), (''full_name'', n)])
                   (c @ ''_name'') = Some n"
      using assms(2,3) by (auto simp: relabel_def suffixed_def plain_def)
    show ?thesis
      by (simp add: relabel_append relabel_relabel cell_def left right map_add_def)
  qed
  show ?thesis
    by (auto simp: joined_def matches_names_of one o_def split: list.splits)
qed

lemma joined_resolved:
  assumes "r' \<in> set (joined c cs players l)"
      and "c @ ''_name'' \<notin> fst ` set l" and "''full_name'' \<notin> set cs"
      and "plain (c @ ''_name'')" and "plain c" and "c \<noteq> c @ ''_name''"
  shows "resolved (directory players) (cell r' c) (cell r' (c @ ''_name''))"
proof -
  have key: "cell r' c = cell l c"
    using joined_plain[OF assms(1,5,6)] .
  have "cell r' (c @ ''_name'') \<in> set (map (\<lambda>r'. cell r' (c @ ''_name'')) (joined c cs players l))"
    using assms(1) by auto
  then have in_names: "cell r' (c @ ''_name'') \<in>
      set (case filter (\<lambda>p. cell p ''id'' = cell l c) players of [] \<Rightarrow> [JNull] | ms \<Rightarrow> map full_name_of ms)"
    by (simp only: joined_name[OF assms(2,3,4)])
  have dir: "filter (\<lambda>e. fst e = k) (directory players)
             = map (\<lambda>p. (cell p ''id'', full_name_of p)) (filter (\<lambda>p. cell p ''id'' = k) players)" for k
    by (induction players) (simp_all add: directory_def)
  show ?thesis
    using in_names unfolding resolved_def key dir
    by (cases "filter (\<lambda>p. cell p ''id'' = cell l c) players") (auto simp: image_def)
qed

lemma labelled_iff: "labelled df \<longleftrightarrow> (\<forall>r\<in>set (rows df). fst ` set r \<subseteq> set (columns df))"
  by (auto simp: labelled_def list_all_iff)

lemma directory_update:
  "directory (map (\<lambda>p. AList.update ''full_name'' (f p) p) players) = directory players"
  by (simp add: directory_def full_name_of_def cell_update o_def)

lemma pull_player_names_directory:
  assumes "pull_player_names pbp_df player_df c = Inr (pbp_df', player_df')"
  shows "directory (rows player_df') = directory (rows player_df)"
  by (simp add: pull_player_names_Inr(2)[OF assms] directory_update)

lemma pull_player_names_columns:
  assumes "pull_player_names pbp_df player_df c = Inr (pbp_df', player_df')"
      and "''full_name'' \<notin> set (columns pbp_df)"
  shows "columns pbp_df' =
           map (\<lambda>k. if k = ''id'' then ''id_x'' else k) (columns pbp_df)
           @ [if ''id'' \<in> set (columns pbp_df) then ''id_y'' else ''id'', c @ ''_name'']"
proof -
  have "map (\<lambda>k. if k = ''full_name'' then c @ ''_name'' else k)
          (map (suffixed [''id'', ''full_name''] ''_x'') cs)
        = map (\<lambda>k. if k = ''id'' then ''id_x'' else k) cs" if "''full_name'' \<notin> set cs" for cs
    using that by (induction cs) (auto simp: suffixed_def)
  then show ?thesis
    using assms(2) by (simp add: pull_player_names_Inr(3)[OF assms(1)] suffixed_def)
qed

lemma relabel_keys: "fst ` set (relabel f r) = f ` fst ` set r"
  by (force simp: relabel_def)

lemma pull_player_names_labelled:
  assumes "pull_player_names pbp_df player_df c = Inr (pbp_df', player_df')"
      and "labelled pbp_df"
  shows "labelled pbp_df'"
proof -
  define rn where "rn = (\<lambda>k. if k = ''full_name'' then c @ ''_name'' else k)"
  define sx where "sx = suffixed [''id'', ''full_name''] ''_x''"
  define sy where "sy = suffixed (columns pbp_df) ''_y''"
  have cols': "set (columns pbp_df') = rn ` (sx ` set (columns pbp_df) \<union> sy ` {''id'', ''full_name''})"
    unfolding pull_player_names_Inr(3)[OF assms(1)] rn_def[symmetric] sx_def[symmetric] sy_def[symmetric]
    by (simp add: image_Un image_image)
  show ?thesis
    unfolding labelled_iff
  proof
    fix r' assume "r' \<in> set (rows pbp_df')"
    then obtain l r where l: "l \<in> set (rows pbp_df)"
      and r: "r \<in> set (matches (names_of (rows player_df)) ''id'' (cell l c))"
      and r': "r' = relabel rn (relabel sx l @ relabel sy r)"
      by (auto simp: pull_player_names_Inr(4)[OF assms(1)] joined_def rn_def sx_def sy_def)
    from right_keys[OF r] obtain v n where rk: "r = [(''id'', v), (''full_name'', n)]"
      by blast
    have lk: "fst ` set l \<subseteq> set (columns pbp_df)"
      using assms(2) l by (simp add: labelled_iff)
    have "fst ` set r' = rn ` (sx ` fst ` set l \<union> sy ` fst ` set r)"
      unfolding r' relabel_keys set_append image_Un relabel_keys ..
    also have "\<dots> = rn ` (sx ` fst ` set l \<union> sy ` {''id'', ''full_name''})"
      by (simp add: rk)
    also have "\<dots> \<subseteq> rn ` (sx ` set (columns pbp_df) \<union> sy ` {''id'', ''full_name''})"
      using lk by blast
    finally show "fst ` set r' \<subseteq> set (columns pbp_df')"
      unfolding cols' .
  qed
qed

lemma concat_map_concat_map:
  "concat (map f (concat (map g xs))) = concat (map (\<lambda>x. concat (map f (g x))) xs)"
  by (induction xs) simp_all

lemma pull_all_rows:
  assumes "pull_all cs pbp_df player_df = Inr (pbp_df', player_df')"
  shows "\<exists>J. rows pbp_df' = concat (map J (rows pbp_df))
           \<and> (\<forall>l. J l \<noteq> []
                \<and> (\<forall>r\<in>set (J l). \<forall>k. plain k \<and> k \<notin> set (name_labels cs) \<longrightarrow> cell r k = cell l k))"
  using assms
proof (induction cs arbitrary: pbp_df player_df)
  case Nil
  then have "rows pbp_df' = concat (map (\<lambda>l. [l]) (rows pbp_df))"
    by simp
  then show ?case
    by (intro exI[of _ "\<lambda>l. [l]"]) simp
next
  case (Cons c cs)
  from Cons.prems obtain pbp1 pl1 where
    step: "pull_player_names pbp_df player_df c = Inr (pbp1, pl1)" and
    rest: "pull_all cs pbp1 pl1 = Inr (pbp_df', player_df')"
    by (auto simp: and_then_eq_Inr split: prod.splits)
  from Cons.IH[OF rest] obtain J where
    J: "rows pbp_df' = concat (map J (rows pbp1))" and
    Jne: "\<And>l. J l \<noteq> []" and
    Jst: "\<And>l r k. r \<in> set (J l) \<Longrightarrow> plain k \<Longrightarrow> k \<notin> set (name_labels cs) \<Longrightarrow> cell r k = cell l k"
    by blast
  let ?J1 = "joined c (columns pbp_df) (rows player_df)"
  let ?K = "\<lambda>l. concat (map J (?J1 l))"
  have rows: "rows pbp_df' = concat (map ?K (rows pbp_df))"
    by (simp add: J pull_player_names_Inr(4)[OF step] concat_map_concat_map)
  have ne: "?K l \<noteq> []" for l
    using joined_nonempty[of c "columns pbp_df" "rows player_df" l] Jne
    by (cases "?J1 l") auto
  have st: "cell r k = cell l k"
    if "r \<in> set (?K l)" "plain k" "k \<notin> set (name_labels (c # cs))" for l r k
  proof -
    from that(1) obtain m where m: "m \<in> set (?J1 l)" and r: "r \<in> set (J m)"
      by auto
    have "cell r k = cell m k"
      using Jst[OF r that(2)] that(3) by (simp add: name_labels_def)
    also have "cell m k = cell l k"
      using joined_plain[OF m that(2)] that(3) by (simp add: name_labels_def)
    finally show ?thesis .
  qed
  show ?case
    using rows ne st by (intro exI[of _ ?K]) blast
qed

lemma pull_all_directory:
  assumes "pull_all cs pbp_df player_df = Inr (pbp_df', player_df')"
  shows "directory (rows player_df') = directory (rows player_df)"
  using assms
proof (induction cs arbitrary: pbp_df player_df)
  case Nil
  then show ?case by simp
next
  case (Cons c cs)
  from Cons.prems obtain pbp1 pl1 where
    step: "pull_player_names pbp_df player_df c = Inr (pbp1, pl1)" and
    rest: "pull_all cs pbp1 pl1 = Inr (pbp_df', player_df')"
    by (auto simp: and_then_eq_Inr split: prod.splits)
  show ?case
    using Cons.IH[OF rest] pull_player_names_directory[OF step] by simp
qed

lemma pull_all_resolved:
  assumes "pull_all cs pbp_df player_df = Inr (pbp_df', player_df')"
      and "labelled pbp_df" and "''full_name'' \<notin> set (columns pbp_df)"
      and "\<forall>c\<in>set cs. c @ ''_name'' \<notin> set (columns pbp_df) \<and> plain c \<and> plain (c @ ''_name'')
                        \<and> c \<notin> set (name_labels cs)"
      and "distinct cs"
  shows "\<forall>c\<in>set cs. \<forall>r\<in>set (rows pbp_df').
           resolved (directory (rows player_df)) (cell r c) (cell r (c @ ''_name''))"
  using assms
proof (induction cs arbitrary: pbp_df player_df)
  case Nil
  then show ?case by simp
next
  case (Cons c cs)
  from Cons.prems(1) obtain pbp1 pl1 where
    step: "pull_player_names pbp_df player_df c = Inr (pbp1, pl1)" and
    rest: "pull_all cs pbp1 pl1 = Inr (pbp_df', player_df')"
    by (auto simp: and_then_eq_Inr split: prod.splits)
  have c: "c @ ''_name'' \<notin> set (columns pbp_df)" "plain c" "plain (c @ ''_name'')"
          "c \<noteq> c @ ''_name''" "c \<notin> set (name_labels cs)"
    using Cons.prems(4) by (auto simp: name_labels_def)
  have lab1: "labelled pbp1"
    using pull_player_names_labelled[OF step Cons.prems(2)] .
  have cols1: "columns pbp1 =
           map (\<lambda>k. if k = ''id'' then ''id_x'' else k) (columns pbp_df)
           @ [if ''id'' \<in> set (columns pbp_df) then ''id_y'' else ''id'', c @ ''_name'']"
    using pull_player_names_columns[OF step Cons.prems(3)] .
  have fn1: "''full_name'' \<notin> set (columns pbp1)"
    using Cons.prems(3) c(3) by (auto simp: cols1 plain_def)
  have pre1: "\<forall>d\<in>set cs. d @ ''_name'' \<notin> set (columns pbp1) \<and> plain d \<and> plain (d @ ''_name'')
                        \<and> d \<notin> set (name_labels cs)"
  proof
    fix d assume d: "d \<in> set cs"
    then have dn: "d @ ''_name'' \<notin> set (columns pbp_df)" "plain d" "plain (d @ ''_name'')"
      "d \<notin> set (name_labels (c # cs))"
      using Cons.prems(4) by auto
    have "d \<noteq> c" using d Cons.prems(5) by auto
    then have "d @ ''_name'' \<noteq> c @ ''_name''" by simp
    then have "d @ ''_name'' \<notin> set (columns pbp1)"
      using dn(1,3) by (auto simp: cols1 plain_def)
    then show "d @ ''_name'' \<notin> set (columns pbp1) \<and> plain d \<and> plain (d @ ''_name'')
                        \<and> d \<notin> set (name_labels cs)"
      using dn by (simp add: name_labels_def)
  qed
  have ih: "\<forall>d\<in>set cs. \<forall>r\<in>set (rows pbp_df').
           resolved (directory (rows pl1)) (cell r d) (cell r (d @ ''_name''))"
    using Cons.IH[OF rest lab1 fn1 pre1] Cons.prems(5) by simp
  have dir: "directory (rows pl1) = directory (rows player_df)"
    using pull_player_names_directory[OF step] .
  have first: "resolved (directory (rows player_df)) (cell r c) (cell r (c @ ''_name''))"
    if "r \<in> set (rows pbp_df')" for r
  proof -
    from pull_all_rows[OF rest] obtain J where
      J: "rows pbp_df' = concat (map J (rows pbp1))" and
      Jst: "\<And>l r k. r \<in> set (J l) \<Longrightarrow> plain k \<Longrightarrow> k \<notin> set (name_labels cs) \<Longrightarrow> cell r k = cell l k"
      by blast
    from that J obtain m where m: "m \<in> set (rows pbp1)" and r: "r \<in> set (J m)"
      by auto
    from m obtain l where l: "l \<in> set (rows pbp_df)"
      and ml: "m \<in> set (joined c (columns pbp_df) (rows player_df) l)"
      by (auto simp: pull_player_names_Inr(4)[OF step])
    have nk: "c @ ''_name'' \<notin> fst ` set l"
      using Cons.prems(2) l c(1) by (auto simp: labelled_iff)
    have cn: "c @ ''_name'' \<notin> set (name_labels cs)"
      using Cons.prems(5) by (auto simp: name_labels_def)
    have "resolved (directory (rows player_df)) (cell m c) (cell m (c @ ''_name''))"
      using joined_resolved[OF ml nk Cons.prems(3) c(3) c(2) c(4)] .
    then show ?thesis
      using Jst[OF r c(2) c(5)] Jst[OF r c(3) cn] by simp
  qed
  show ?case
    using first ih dir by auto
qed

lemma cell_project: "cell (map (\<lambda>c. (c, cell r c)) cs) k = (if k \<in> set cs then cell r k else JNull)"
  by (induction cs) (auto simp: cell_def)

lemma select_Inr:
  assumes "select cs df = Inr df'"
  shows "rows df' = map (\<lambda>r. map (\<lambda>c. (c, cell r c)) cs) (rows df)"
  using assms by (auto simp: select_def split: if_splits)

lemma main_Inr:
  assumes "main num pbp_dict = Inr (pbp_out, player_out, team_out)"
  shows "\<exists>pbp_df player_df merged.
           convert_pbp_dict num pbp_dict = Inr (pbp_df, player_df, team_out)
         \<and> pull_all player_id_columns pbp_df player_df = Inr (merged, player_out)
         \<and> select out_columns merged = Inr pbp_out"
  using assms by (auto simp: main_def and_then_eq_Inr split: prod.splits)

lemma build_tables_labelled:
  assumes "build_tables num pbp_dict = Inr (pbp_df, player_df, team_df)"
  shows "labelled pbp_df"
proof -
  from assms obtain parsed home_team home_team_id away_team away_team_id df1 df2 df3 df4 where
    c1: "coerce_column num ''event_p1''
           (set_scalar ''away_team_id'' away_team_id (set_scalar ''away_team'' away_team
             (set_scalar ''home_team_id'' home_team_id (set_scalar ''home_team'' home_team
               (fillna0 (DataFrame parsed cols)))))) = Inr df1" and
    c2: "coerce_column num ''event_p2'' df1 = Inr df2" and
    c3: "coerce_column num ''event_p3'' df2 = Inr df3" and
    c4: "coerce_column num ''away_goalie'' df3 = Inr df4" and
    c5: "coerce_column num ''home_goalie'' df4 = Inr pbp_df"
    by (auto simp: build_tables_def and_then_eq_Inr Let_def)
  have zip_keys: "fst ` set (zip cols r) \<subseteq> set cols" for r :: "json list"
    by (auto dest: set_zip_leftD)
  have fill_keys: "fst ` set (map (\<lambda>(c, v). (c, if v = JNull then JInt 0 else v)) r) = fst ` set r"
    for r :: row
    by force
  have base: "\<forall>r\<in>set (rows (fillna0 (DataFrame parsed cols))). fst ` set r \<subseteq> set cols"
    using zip_keys by (auto simp: fillna0_def DataFrame_def simp del: set_map) force
  show ?thesis
    unfolding labelled_iff build_tables_Inr(4)[OF assms]
    using base
    by (auto simp: coerce_column_Inr(2)[OF c5] coerce_column_Inr(2)[OF c4] coerce_column_Inr(2)[OF c3]
        coerce_column_Inr(2)[OF c2] coerce_column_Inr(2)[OF c1]
        set_scalar_def dom_update cols_def)
qed

subsection \<open>The tables of one run\<close>

lemma convert_labelled:
  assumes "convert_pbp_dict num pbp_dict = Inr (pbp_df, player_df, team_df)"
  shows "labelled pbp_df"
    and "columns pbp_df = cols @ [''home_team'', ''home_team_id'', ''away_team'', ''away_team_id'']"
proof -
  from convert_pbp_dict_Inr[OF assms] obtain unsorted where
    b: "build_tables num pbp_dict = Inr (unsorted, player_df, team_df)" and
    s: "sort_values [''period'', ''seconds_elapsed'', ''event_index''] unsorted = Inr pbp_df"
    by blast
  show "columns pbp_df = cols @ [''home_team'', ''home_team_id'', ''away_team'', ''away_team_id'']"
    by (simp add: sort_values_Inr(1)[OF s] build_tables_Inr(4)[OF b])
  show "labelled pbp_df"
    using build_tables_labelled[OF b]
    by (simp add: labelled_iff sort_values_Inr(1,2)[OF s])
qed

lemma convert_columns_plain:
  assumes "convert_pbp_dict num pbp_dict = Inr (pbp_df, player_df, team_df)"
      and "k \<in> set (columns pbp_df)"
  shows "plain k" and "k \<notin> set (name_labels player_id_columns)" and "k \<in> set out_columns"
  using assms(2) unfolding convert_labelled(2)[OF assms(1)]
  by (auto simp: cols_def plain_def name_labels_def player_id_columns_def out_columns_def)

lemma main_rows:
  assumes "main num pbp_dict = Inr (pbp_out, player_out, team_out)"
      and "convert_pbp_dict num pbp_dict = Inr (pbp_df, player_df, team_df)"
  shows "\<exists>J. rows pbp_out = concat (map J (rows pbp_df))
           \<and> (\<forall>l. J l \<noteq> [] \<and> (\<forall>r\<in>set (J l). \<forall>k\<in>set (columns pbp_df). cell r k = cell l k))"
proof -
  from main_Inr[OF assms(1)] assms(2) obtain merged where
    p: "pull_all player_id_columns pbp_df player_df = Inr (merged, player_out)" and
    s: "select out_columns merged = Inr pbp_out"
    by auto
  from pull_all_rows[OF p] obtain J where
    J: "rows merged = concat (map J (rows pbp_df))" and
    Jne: "\<And>l. J l \<noteq> []" and
    Jst: "\<And>l r k. r \<in> set (J l) \<Longrightarrow> plain k \<Longrightarrow> k \<notin> set (name_labels player_id_columns)
            \<Longrightarrow> cell r k = cell l k"
    by blast
  let ?P = "\<lambda>r. map (\<lambda>c. (c, cell r c)) out_columns"
  let ?K = "\<lambda>l. map ?P (J l)"
  have "rows pbp_out = concat (map ?K (rows pbp_df))"
    by (simp add: select_Inr[OF s] J map_concat o_def)
  moreover have "?K l \<noteq> []" for l
    using Jne by simp
  moreover have "cell r k = cell l k" if "r \<in> set (?K l)" "k \<in> set (columns pbp_df)" for l r k
  proof -
    from that(1) obtain m where m: "m \<in> set (J l)" and r: "r = ?P m"
      by auto
    show ?thesis
      using Jst[OF m convert_columns_plain(1,2)[OF assms(2) that(2)]]
            convert_columns_plain(3)[OF assms(2) that(2)]
      by (simp add: r cell_project)
  qed
  ultimately show ?thesis
    by (intro exI[of _ ?K]) blast
qed

lemma length_concat_nonempty:
  assumes "\<And>x. J x \<noteq> []"
  shows "length xs \<le> length (concat (map J xs))"
proof (induction xs)
  case Nil
  then show ?case by simp
next
  case (Cons x xs)
  show ?case
    using assms[of x] Cons by (cases "J x") auto
qed


lemma resolved_directory:
  "resolved (directory players) k name \<longleftrightarrow>
     (case filter (\<lambda>p. cell p ''id'' = k) players of
        [] \<Rightarrow> name = JNull
      | ms \<Rightarrow> name \<in> full_name_of ` set ms)"
proof -
  have dir: "filter (\<lambda>e. fst e = k) (directory players)
             = map (\<lambda>p. (cell p ''id'', full_name_of p)) (filter (\<lambda>p. cell p ''id'' = k) players)"
    by (induction players) (simp_all add: directory_def)
  show ?thesis
    unfolding resolved_def dir
    by (cases "filter (\<lambda>p. cell p ''id'' = k) players") (auto simp: image_image)
qed

text \<open>
  Claim C6, as amended. In the play table that \<open>main\<close> writes, for each of the five
  identifier columns \<open>c\<close>: when the identifier of a row is the \<open>id\<close> of some player row,
  the cell \<open>c_name\<close> holds the full name of a player row with that \<open>id\<close>, and it is
  missing when no player row has it. The full name of a player whose first and last names
  are strings is the stripped first name, a space and the stripped last name (never
  empty); it is missing when either name is. No row is dropped: every row of the table
  that \<open>convert_pbp_dict\<close> returned is found in the output with all its cells, and the
  output has at least as many rows.
\<close>

theorem names_resolved:
  assumes "main num pbp_dict = Inr (pbp_out, player_out, team_out)"
      and "convert_pbp_dict num pbp_dict = Inr (pbp_df, player_df, team_df)"
  shows "(\<forall>c\<in>set player_id_columns. \<forall>r\<in>set (rows pbp_out).
            case filter (\<lambda>p. cell p ''id'' = cell r c) (rows player_df) of
              [] \<Rightarrow> cell r (c @ ''_name'') = JNull
            | ms \<Rightarrow> cell r (c @ ''_name'') \<in> full_name_of ` set ms)
       \<and> (\<forall>p first_name last_name.
            cell p ''first_name'' = JStr first_name \<and> cell p ''last_name'' = JStr last_name \<longrightarrow>
              full_name_of p = JStr (strip first_name @ '' '' @ strip last_name))
       \<and> (\<forall>p. cell p ''first_name'' = JNull \<or> cell p ''last_name'' = JNull \<longrightarrow> full_name_of p = JNull)
       \<and> (\<forall>l\<in>set (rows pbp_df). \<exists>r\<in>set (rows pbp_out). \<forall>k\<in>set (columns pbp_df). cell r k = cell l k)
       \<and> length (rows pbp_df) \<le> length (rows pbp_out)"
proof -
  from main_Inr[OF assms(1)] assms(2) obtain merged where
    p: "pull_all player_id_columns pbp_df player_df = Inr (merged, player_out)" and
    s: "select out_columns merged = Inr pbp_out"
    by auto
  have pre: "\<forall>c\<in>set player_id_columns.
               c @ ''_name'' \<notin> set (columns pbp_df) \<and> plain c \<and> plain (c @ ''_name'')
             \<and> c \<notin> set (name_labels player_id_columns)"
    by (simp add: convert_labelled(2)[OF assms(2)] cols_def player_id_columns_def plain_def
                  name_labels_def)
  have fn: "''full_name'' \<notin> set (columns pbp_df)"
    by (simp add: convert_labelled(2)[OF assms(2)] cols_def)
  have dist: "distinct player_id_columns"
    by (simp add: player_id_columns_def)
  note res = pull_all_resolved[OF p convert_labelled(1)[OF assms(2)] fn pre dist]
  have names: "case filter (\<lambda>p. cell p ''id'' = cell r c) (rows player_df) of
              [] \<Rightarrow> cell r (c @ ''_name'') = JNull
            | ms \<Rightarrow> cell r (c @ ''_name'') \<in> full_name_of ` set ms"
    if c: "c \<in> set player_id_columns" and r: "r \<in> set (rows pbp_out)" for c r
  proof -
    from r obtain m where m: "m \<in> set (rows merged)" and rm: "r = map (\<lambda>c. (c, cell m c)) out_columns"
      by (auto simp: select_Inr[OF s])
    have "c \<in> set out_columns" "c @ ''_name'' \<in> set out_columns"
      using c by (auto simp: player_id_columns_def out_columns_def)
    then have "cell r c = cell m c" "cell r (c @ ''_name'') = cell m (c @ ''_name'')"
      by (simp_all add: rm cell_project)
    then show ?thesis
      using res c m by (simp add: resolved_directory[symmetric])
  qed
  from main_rows[OF assms] obtain J where
    J: "rows pbp_out = concat (map J (rows pbp_df))" and
    Jne: "\<And>l. J l \<noteq> []" and
    Jst: "\<And>l r k. r \<in> set (J l) \<Longrightarrow> k \<in> set (columns pbp_df) \<Longrightarrow> cell r k = cell l k"
    by blast
  have kept: "\<exists>r\<in>set (rows pbp_out). \<forall>k\<in>set (columns pbp_df). cell r k = cell l k"
    if "l \<in> set (rows pbp_df)" for l
  proof -
    from Jne[of l] obtain r where r: "r \<in> set (J l)"
      by (cases "J l") auto
    then have "r \<in> set (rows pbp_out)"
      using that by (auto simp: J)
    then show ?thesis
      using Jst[OF r] by blast
  qed
  have len: "length (rows pbp_df) \<le> length (rows pbp_out)"
    unfolding J by (rule length_concat_nonempty) (rule Jne)
  have full: "full_name_of p = JStr (strip f @ '' '' @ strip l)"
    if "cell p ''first_name'' = JStr f" "cell p ''last_name'' = JStr l" for p f l
    using that by (simp add: full_name_of_def)
  have null: "full_name_of p = JNull"
    if "cell p ''first_name'' = JNull \<or> cell p ''last_name'' = JNull" for p
    using that by (cases "cell p ''first_name''") (auto simp: full_name_of_def)
  show ?thesis
    using names kept len full null by blast
qed

lemma full_name_of_update:
  "full_name_of (AList.update ''full_name'' v p) = full_name_of p"
  by (simp add: full_name_of_def cell_update)

lemma pull_all_players:
  assumes "pull_all cs pbp_df player_df = Inr (pbp_df', player_df')" and "cs \<noteq> []"
  shows "columns player_df' = with_label ''full_name'' (columns player_df)
       \<and> rows player_df' = map (\<lambda>p. AList.update ''full_name'' (full_name_of p) p) (rows player_df)"
  using assms
proof (induction cs arbitrary: pbp_df player_df)
  case Nil
  then show ?case by simp
next
  case (Cons c cs)
  from Cons.prems(1) obtain pbp1 pl1 where
    step: "pull_player_names pbp_df player_df c = Inr (pbp1, pl1)" and
    rest: "pull_all cs pbp1 pl1 = Inr (pbp_df', player_df')"
    by (auto simp: and_then_eq_Inr split: prod.splits)
  note first = pull_player_names_Inr(1,2)[OF step]
  show ?case
  proof (cases "cs = []")
    case True
    then show ?thesis using rest first by simp
  next
    case False
    from Cons.IH[OF rest False] show ?thesis
      by (simp add: first with_label_def o_def full_name_of_update)
  qed
qed

text \<open>
  Claim C8. The team table is the projection of \<open>team_instance\<close>, and when it has
  exactly two rows, every row of the play table, as \<open>convert_pbp_dict\<close> returns it and
  as \<open>main\<close> writes it, has \<open>home_team\<close> and \<open>home_team_id\<close> equal to \<open>name\<close> and
  \<open>team_id\<close> of team row 0, and \<open>away_team\<close> and \<open>away_team_id\<close> equal to those of team
  row 1.
\<close>

theorem team_columns_broadcast:
  assumes "convert_pbp_dict num pbp_dict = Inr (pbp_df, player_df, team_df)"
  shows "and_then (getitem pbp_dict ''team_instance'') from_dict = Inr team_df
       \<and> (length (rows team_df) = 2 \<longrightarrow>
           (\<forall>r\<in>set (rows pbp_df).
               cell r ''home_team'' = cell (rows team_df ! 0) ''name''
             \<and> cell r ''home_team_id'' = cell (rows team_df ! 0) ''team_id''
             \<and> cell r ''away_team'' = cell (rows team_df ! 1) ''name''
             \<and> cell r ''away_team_id'' = cell (rows team_df ! 1) ''team_id'')
         \<and> (\<forall>pbp_out player_out team_out.
               main num pbp_dict = Inr (pbp_out, player_out, team_out) \<longrightarrow>
                 team_out = team_df
               \<and> (\<forall>r\<in>set (rows pbp_out).
                     cell r ''home_team'' = cell (rows team_df ! 0) ''name''
                   \<and> cell r ''home_team_id'' = cell (rows team_df ! 0) ''team_id''
                   \<and> cell r ''away_team'' = cell (rows team_df ! 1) ''name''
                   \<and> cell r ''away_team_id'' = cell (rows team_df ! 1) ''team_id'')))"
proof -
  from convert_pbp_dict_Inr[OF assms] obtain unsorted where
    b: "build_tables num pbp_dict = Inr (unsorted, player_df, team_df)" and
    s: "sort_values [''period'', ''seconds_elapsed'', ''event_index''] unsorted = Inr pbp_df"
    by blast
  have conv: "cell r ''home_team'' = cell (rows team_df ! 0) ''name''
             \<and> cell r ''home_team_id'' = cell (rows team_df ! 0) ''team_id''
             \<and> cell r ''away_team'' = cell (rows team_df ! 1) ''name''
             \<and> cell r ''away_team_id'' = cell (rows team_df ! 1) ''team_id''"
    if "r \<in> set (rows pbp_df)" for r
    using that build_tables_Inr(5)[OF b] by (simp add: sort_values_Inr(2)[OF s])
  have team_labels: "''home_team'' \<in> set (columns pbp_df)" "''home_team_id'' \<in> set (columns pbp_df)"
       "''away_team'' \<in> set (columns pbp_df)" "''away_team_id'' \<in> set (columns pbp_df)"
    by (simp_all add: convert_labelled(2)[OF assms])
  have out: "team_out = team_df
            \<and> (\<forall>r\<in>set (rows pbp_out).
                     cell r ''home_team'' = cell (rows team_df ! 0) ''name''
                   \<and> cell r ''home_team_id'' = cell (rows team_df ! 0) ''team_id''
                   \<and> cell r ''away_team'' = cell (rows team_df ! 1) ''name''
                   \<and> cell r ''away_team_id'' = cell (rows team_df ! 1) ''team_id'')"
    if m: "main num pbp_dict = Inr (pbp_out, player_out, team_out)" for pbp_out player_out team_out
  proof -
    from main_Inr[OF m] assms have same: "team_out = team_df"
      by auto
    from main_rows[OF m assms] obtain J where
      J: "rows pbp_out = concat (map J (rows pbp_df))" and
      Jst: "\<And>l r k. r \<in> set (J l) \<Longrightarrow> k \<in> set (columns pbp_df) \<Longrightarrow> cell r k = cell l k"
      by blast
    have "cell r ''home_team'' = cell (rows team_df ! 0) ''name''
        \<and> cell r ''home_team_id'' = cell (rows team_df ! 0) ''team_id''
        \<and> cell r ''away_team'' = cell (rows team_df ! 1) ''name''
        \<and> cell r ''away_team_id'' = cell (rows team_df ! 1) ''team_id''"
      if "r \<in> set (rows pbp_out)" for r
    proof -
      from that obtain l where l: "l \<in> set (rows pbp_df)" and r: "r \<in> set (J l)"
        by (auto simp: J)
      show ?thesis
        using conv[OF l] Jst[OF r team_labels(1)] Jst[OF r team_labels(2)]
              Jst[OF r team_labels(3)] Jst[OF r team_labels(4)] by simp
    qed
    with same show ?thesis by blast
  qed
  show ?thesis
    using build_tables_Inr(2)[OF b] conv out by blast
qed



text \<open>
  Claim C9, as amended. The player table that \<open>main\<close> writes is the projection of
  \<open>roster_player\<close> with one column more: \<open>full_name\<close>, which line 172 assigns into the
  table \<open>main\<close> holds (a source column of that name keeps its place and gets the computed
  names). It has the same rows, and every cell under another label is the source's.
\<close>

theorem player_table_gets_full_name:
  assumes "main num pbp_dict = Inr (pbp_out, player_out, team_out)"
      and "and_then (getitem pbp_dict ''roster_player'') from_dict = Inr player_df"
  shows "columns player_out =
           (if ''full_name'' \<in> set (columns player_df) then columns player_df
            else columns player_df @ [''full_name''])
       \<and> length (rows player_out) = length (rows player_df)
       \<and> (\<forall>i<length (rows player_df).
             cell (rows player_out ! i) ''full_name'' = full_name_of (rows player_df ! i)
           \<and> (\<forall>k. k \<noteq> ''full_name'' \<longrightarrow>
                 cell (rows player_out ! i) k = cell (rows player_df ! i) k))"
proof -
  from main_Inr[OF assms(1)] obtain pbp_df pl merged where
    c: "convert_pbp_dict num pbp_dict = Inr (pbp_df, pl, team_out)" and
    p: "pull_all player_id_columns pbp_df pl = Inr (merged, player_out)"
    by blast
  from convert_pbp_dict_Inr[OF c] obtain unsorted where
    b: "build_tables num pbp_dict = Inr (unsorted, pl, team_out)"
    by blast
  have pl: "pl = player_df"
    using build_tables_Inr(1)[OF b] assms(2) by simp
  have "player_id_columns \<noteq> []"
    by (simp add: player_id_columns_def)
  from pull_all_players[OF p this] show ?thesis
    by (simp add: pl with_label_def cell_update)
qed

subsection \<open>The example game\<close>

lemma example_game_runs:
  "\<exists>unsorted pbp_df player_df team_df pbp_out player_out.
      build_tables (\<lambda>s. None) example_game = Inr (unsorted, player_df, team_df)
    \<and> convert_pbp_dict (\<lambda>s. None) example_game = Inr (pbp_df, player_df, team_df)
    \<and> main (\<lambda>s. None) example_game = Inr (pbp_out, player_out, team_df)
    \<and> and_then (getitem example_game ''roster_player'') from_dict = Inr player_df"
proof -
  have "\<not> isl (main (\<lambda>s. None) example_game)"
    by code_simp
  then obtain pbp_out player_out team_out where
    m: "main (\<lambda>s. None) example_game = Inr (pbp_out, player_out, team_out)"
    by (cases "main (\<lambda>s. None) example_game") auto
  from main_Inr[OF m] obtain pbp_df player_df where
    c: "convert_pbp_dict (\<lambda>s. None) example_game = Inr (pbp_df, player_df, team_out)"
    by blast
  from convert_pbp_dict_Inr[OF c] obtain unsorted where
    b: "build_tables (\<lambda>s. None) example_game = Inr (unsorted, player_df, team_out)"
    by blast
  show ?thesis
    using m c b build_tables_Inr(1)[OF b] by blast
qed

lemma example_game_tables:
  "case convert_pbp_dict (\<lambda>s. None) example_game of
     Inl e \<Rightarrow> False
   | Inr (pbp_df, player_df, team_df) \<Rightarrow>
       map key3 (rows pbp_df) = [(1, 323, 1), (1, 720, 2)]
     \<and> columns player_df = [''id'', ''first_name'', ''last_name'']"
  "case build_tables (\<lambda>s. None) example_game of
     Inl e \<Rightarrow> False
   | Inr (unsorted, player_df, team_df) \<Rightarrow>
       map key3 (rows unsorted) = [(1, 720, 2), (1, 323, 1)]"
  by code_simp+

text \<open>
  The theorem at the example game: player 10 is in the player table with both names and
  is resolved to \<open>Ann Lee\<close>; the two plays give two rows.
\<close>

theorem names_resolved_witness:
  "\<exists>pbp_df player_df team_df pbp_out player_out.
      convert_pbp_dict (\<lambda>s. None) example_game = Inr (pbp_df, player_df, team_df)
    \<and> main (\<lambda>s. None) example_game = Inr (pbp_out, player_out, team_df)
    \<and> map (\<lambda>r. (cell r ''event_p1'', cell r ''event_p1_name'', cell r ''away_goalie'',
                 cell r ''away_goalie_name'')) (rows pbp_out)
        = [(JInt 10, JStr ''Ann Lee'', JInt 30, JStr ''Kim Park''),
           (JInt 20, JNull, JInt 30, JStr ''Kim Park'')]
    \<and> list_all (\<lambda>r. case filter (\<lambda>p. cell p ''id'' = cell r ''event_p1'') (rows player_df) of
                       [] \<Rightarrow> cell r ''event_p1_name'' = JNull
                     | ms \<Rightarrow> cell r ''event_p1_name'' \<in> full_name_of ` set ms) (rows pbp_out)
    \<and> length (rows pbp_df) \<le> length (rows pbp_out)"
proof -
  from example_game_runs obtain pbp_df player_df team_df pbp_out player_out where
    c: "convert_pbp_dict (\<lambda>s. None) example_game = Inr (pbp_df, player_df, team_df)" and
    m: "main (\<lambda>s. None) example_game = Inr (pbp_out, player_out, team_df)"
    by blast
  have p1: "''event_p1'' \<in> set player_id_columns"
    by (simp add: player_id_columns_def)
  note facts = names_resolved[OF m c]
  from facts have "\<forall>c\<in>set player_id_columns. \<forall>r\<in>set (rows pbp_out).
            case filter (\<lambda>p. cell p ''id'' = cell r c) (rows player_df) of
              [] \<Rightarrow> cell r (c @ ''_name'') = JNull
            | ms \<Rightarrow> cell r (c @ ''_name'') \<in> full_name_of ` set ms"
    by blast
  with p1 have "\<forall>r\<in>set (rows pbp_out).
            case filter (\<lambda>p. cell p ''id'' = cell r ''event_p1'') (rows player_df) of
              [] \<Rightarrow> cell r (''event_p1'' @ ''_name'') = JNull
            | ms \<Rightarrow> cell r (''event_p1'' @ ''_name'') \<in> full_name_of ` set ms"
    by blast
  then have names: "list_all (\<lambda>r. case filter (\<lambda>p. cell p ''id'' = cell r ''event_p1'') (rows player_df) of
                       [] \<Rightarrow> cell r ''event_p1_name'' = JNull
                     | ms \<Rightarrow> cell r ''event_p1_name'' \<in> full_name_of ` set ms) (rows pbp_out)"
    by (simp add: list_all_iff cong: list.case_cong)
  from facts have len: "length (rows pbp_df) \<le> length (rows pbp_out)"
    by blast
  have "case main (\<lambda>s. None) example_game of
          Inl e \<Rightarrow> False
        | Inr (pbp_out, player_out, team_out) \<Rightarrow>
            map (\<lambda>r. (cell r ''event_p1'', cell r ''event_p1_name'', cell r ''away_goalie'',
                       cell r ''away_goalie_name'')) (rows pbp_out)
              = [(JInt 10, JStr ''Ann Lee'', JInt 30, JStr ''Kim Park''),
                 (JInt 20, JNull, JInt 30, JStr ''Kim Park'')]"
    by code_simp
  then have out: "map (\<lambda>r. (cell r ''event_p1'', cell r ''event_p1_name'', cell r ''away_goalie'',
                       cell r ''away_goalie_name'')) (rows pbp_out)
              = [(JInt 10, JStr ''Ann Lee'', JInt 30, JStr ''Kim Park''),
                 (JInt 20, JNull, JInt 30, JStr ''Kim Park'')]"
    by (simp add: m)
  show ?thesis
    apply (rule exI[of _ pbp_df], rule exI[of _ player_df], rule exI[of _ team_df])
    apply (rule exI[of _ pbp_out], rule exI[of _ player_out])
    using c m out names len by (intro conjI)
qed

text \<open>
  Claim C6 as stated fails for a player row with a missing name: the scorer 20 is an
  \<open>id\<close> of the player table, whose row has a last name but a null first name; the full
  name of line 172 is then missing, and so is \<open>event_p1_name\<close>.
\<close>

theorem null_name_not_resolved:
  "case main (\<lambda>s. None) (example_record [goal_play JNull]) of
     Inl e \<Rightarrow> False
   | Inr (pbp_out, player_out, team_out) \<Rightarrow>
       map (\<lambda>r. (cell r ''event_p1'', cell r ''event_p1_name'')) (rows pbp_out) = [(JInt 20, JNull)]
     \<and> filter (\<lambda>p. cell p ''id'' = JInt 20) (rows player_out)
         = [[(''id'', JInt 20), (''first_name'', JNull), (''last_name'', JStr ''Smith''),
             (''full_name'', JNull)]]"
  by code_simp

text \<open>
  The theorem at the example game, whose team table has the two rows \<open>Whale\<close> and
  \<open>Pride\<close>.
\<close>

theorem team_columns_broadcast_witness:
  "\<exists>pbp_df player_df team_df pbp_out player_out.
      convert_pbp_dict (\<lambda>s. None) example_game = Inr (pbp_df, player_df, team_df)
    \<and> main (\<lambda>s. None) example_game = Inr (pbp_out, player_out, team_df)
    \<and> length (rows team_df) = 2
    \<and> map (\<lambda>r. (cell r ''home_team'', cell r ''home_team_id'', cell r ''away_team'',
                 cell r ''away_team_id'')) (rows pbp_out)
        = [(JStr ''Whale'', JInt 3, JStr ''Pride'', JInt 4),
           (JStr ''Whale'', JInt 3, JStr ''Pride'', JInt 4)]
    \<and> list_all (\<lambda>r. cell r ''home_team'' = cell (rows team_df ! 0) ''name''
                   \<and> cell r ''away_team'' = cell (rows team_df ! 1) ''name'') (rows pbp_out)"
proof -
  from example_game_runs obtain pbp_df player_df team_df pbp_out player_out where
    c: "convert_pbp_dict (\<lambda>s. None) example_game = Inr (pbp_df, player_df, team_df)" and
    m: "main (\<lambda>s. None) example_game = Inr (pbp_out, player_out, team_df)"
    by blast
  have "case main (\<lambda>s. None) example_game of
          Inl e \<Rightarrow> False
        | Inr (pbp_out, player_out, team_out) \<Rightarrow>
            length (rows team_out) = 2
          \<and> map (\<lambda>r. (cell r ''home_team'', cell r ''home_team_id'', cell r ''away_team'',
                       cell r ''away_team_id'')) (rows pbp_out)
              = [(JStr ''Whale'', JInt 3, JStr ''Pride'', JInt 4),
                 (JStr ''Whale'', JInt 3, JStr ''Pride'', JInt 4)]"
    by code_simp
  then have two: "length (rows team_df) = 2"
    and out: "map (\<lambda>r. (cell r ''home_team'', cell r ''home_team_id'', cell r ''away_team'',
                       cell r ''away_team_id'')) (rows pbp_out)
              = [(JStr ''Whale'', JInt 3, JStr ''Pride'', JInt 4),
                 (JStr ''Whale'', JInt 3, JStr ''Pride'', JInt 4)]"
    by (simp_all add: m)
  from team_columns_broadcast[OF c] two m
  have "\<forall>r\<in>set (rows pbp_out).
          cell r ''home_team'' = cell (rows team_df ! 0) ''name''
        \<and> cell r ''away_team'' = cell (rows team_df ! 1) ''name''"
    by blast
  then have all: "list_all (\<lambda>r. cell r ''home_team'' = cell (rows team_df ! 0) ''name''
                   \<and> cell r ''away_team'' = cell (rows team_df ! 1) ''name'') (rows pbp_out)"
    by (simp add: list_all_iff)
  show ?thesis
    apply (rule exI[of _ pbp_df], rule exI[of _ player_df], rule exI[of _ team_df])
    apply (rule exI[of _ pbp_out], rule exI[of _ player_out])
    using c m two out all by (intro conjI)
qed


text \<open>
  The theorem at the example game: three source columns, four written columns.
\<close>

theorem player_table_gets_full_name_witness:
  "\<exists>pbp_out player_out team_out player_df.
      main (\<lambda>s. None) example_game = Inr (pbp_out, player_out, team_out)
    \<and> and_then (getitem example_game ''roster_player'') from_dict = Inr player_df
    \<and> columns player_df = [''id'', ''first_name'', ''last_name'']
    \<and> columns player_out = [''id'', ''first_name'', ''last_name'', ''full_name'']
    \<and> map (\<lambda>p. cell p ''full_name'') (rows player_out) = [JStr ''Ann Lee'', JNull, JStr ''Kim Park'']
    \<and> length (rows player_out) = length (rows player_df)"
proof -
  from example_game_runs obtain pbp_df player_df team_df pbp_out player_out where
    c: "convert_pbp_dict (\<lambda>s. None) example_game = Inr (pbp_df, player_df, team_df)" and
    m: "main (\<lambda>s. None) example_game = Inr (pbp_out, player_out, team_df)" and
    p: "and_then (getitem example_game ''roster_player'') from_dict = Inr player_df"
    by blast
  have cols: "columns player_df = [''id'', ''first_name'', ''last_name'']"
    using example_game_tables(1) by (simp add: c)
  from player_table_gets_full_name[OF m p]
  have a: "columns player_out = [''id'', ''first_name'', ''last_name'', ''full_name'']"
       "length (rows player_out) = length (rows player_df)"
    by (simp_all add: cols)
  have "case main (\<lambda>s. None) example_game of
          Inl e \<Rightarrow> False
        | Inr (pbp_out, player_out, team_out) \<Rightarrow>
            map (\<lambda>p. cell p ''full_name'') (rows player_out) = [JStr ''Ann Lee'', JNull, JStr ''Kim Park'']"
    by code_simp
  then have b: "map (\<lambda>p. cell p ''full_name'') (rows player_out) = [JStr ''Ann Lee'', JNull, JStr ''Kim Park'']"
    by (simp add: m)
  show ?thesis
    apply (rule exI[of _ pbp_out], rule exI[of _ player_out], rule exI[of _ team_df])
    apply (rule exI[of _ player_df])
    using m p cols a b by (intro conjI)
qed

text \<open>
  Claim C9 as stated fails: the player table handed to \<open>to_csv\<close> is not the table of
  the source columns. The projection of \<open>roster_player\<close> has the columns \<open>id\<close>,
  \<open>first_name\<close> and \<open>last_name\<close>; the written table has \<open>full_name\<close> as well.
\<close>

theorem player_file_has_added_column:
  "case main (\<lambda>s. None) example_game of
     Inl e \<Rightarrow> False
   | Inr (pbp_out, player_out, team_out) \<Rightarrow>
       and_then (getitem example_game ''roster_player'') from_dict
         = Inr \<lparr>columns = [''id'', ''first_name'', ''last_name''],
                rows = [[(''id'', JInt 10), (''first_name'', JStr '' Ann ''), (''last_name'', JStr ''Lee '')],
                        [(''id'', JInt 20), (''first_name'', JNull), (''last_name'', JStr ''Smith'')],
                        [(''id'', JInt 30), (''first_name'', JStr ''Kim''), (''last_name'', JStr ''Park'')]]\<rparr>
     \<and> columns player_out = [''id'', ''first_name'', ''last_name'', ''full_name'']
     \<and> rows player_out =
          [[(''id'', JInt 10), (''first_name'', JStr '' Ann ''), (''last_name'', JStr ''Lee ''),
            (''full_name'', JStr ''Ann Lee'')],
           [(''id'', JInt 20), (''first_name'', JNull), (''last_name'', JStr ''Smith''),
            (''full_name'', JNull)],
           [(''id'', JInt 30), (''first_name'', JStr ''Kim''), (''last_name'', JStr ''Park''),
            (''full_name'', JStr ''Kim Park'')]]"
  by code_simp

end
